theory Spec2Isabelle
  imports Main "HOL-Library.Word"
begin

unbundle bit_operations_syntax

section \<open>Constants of the kernel interface\<close>

text \<open>
  Error numbers, media-bus format codes, selection targets and control identifiers are
  defined by kernel headers that the driver includes. They are plain numbers; the driver
  only compares them. Return codes follow the kernel convention: 0 for success, a negated
  error number for failure.
\<close>

definition EIO :: int where "EIO = 5"
definition EBUSY :: int where "EBUSY = 16"
definition EINVAL :: int where "EINVAL = 22"

definition MEDIA_BUS_FMT_Y10_1X10 :: nat where "MEDIA_BUS_FMT_Y10_1X10 = 0x200a"
definition MEDIA_BUS_FMT_SBGGR10_1X10 :: nat where "MEDIA_BUS_FMT_SBGGR10_1X10 = 0x3007"
definition MEDIA_BUS_FMT_SGBRG10_1X10 :: nat where "MEDIA_BUS_FMT_SGBRG10_1X10 = 0x300e"
definition MEDIA_BUS_FMT_SGRBG10_1X10 :: nat where "MEDIA_BUS_FMT_SGRBG10_1X10 = 0x300a"
definition MEDIA_BUS_FMT_SRGGB10_1X10 :: nat where "MEDIA_BUS_FMT_SRGGB10_1X10 = 0x300f"

definition V4L2_SEL_TGT_CROP :: nat where "V4L2_SEL_TGT_CROP = 0x0000"
definition V4L2_SEL_TGT_CROP_DEFAULT :: nat where "V4L2_SEL_TGT_CROP_DEFAULT = 0x0001"
definition V4L2_SEL_TGT_CROP_BOUNDS :: nat where "V4L2_SEL_TGT_CROP_BOUNDS = 0x0002"
definition V4L2_SEL_TGT_NATIVE_SIZE :: nat where "V4L2_SEL_TGT_NATIVE_SIZE = 0x0003"

definition V4L2_CID_BRIGHTNESS :: nat where "V4L2_CID_BRIGHTNESS = 0x00980900"
definition V4L2_CID_EXPOSURE :: nat where "V4L2_CID_EXPOSURE = 0x00980911"
definition V4L2_CID_HFLIP :: nat where "V4L2_CID_HFLIP = 0x00980914"
definition V4L2_CID_VFLIP :: nat where "V4L2_CID_VFLIP = 0x00980915"
definition V4L2_CID_VBLANK :: nat where "V4L2_CID_VBLANK = 0x009e0901"
definition V4L2_CID_HBLANK :: nat where "V4L2_CID_HBLANK = 0x009e0902"
definition V4L2_CID_ANALOGUE_GAIN :: nat where "V4L2_CID_ANALOGUE_GAIN = 0x009e0903"
definition V4L2_CID_LINK_FREQ :: nat where "V4L2_CID_LINK_FREQ = 0x009f0901"
definition V4L2_CID_PIXEL_RATE :: nat where "V4L2_CID_PIXEL_RATE = 0x009f0902"

section \<open>Registers and limits of the driver\<close>

datatype cci_reg = CCI_REG8 nat

fun CCI_REG_ADDR :: "cci_reg \<Rightarrow> nat" where
  "CCI_REG_ADDR (CCI_REG8 addr) = addr"

definition GMAX4002_STREAM_DELAY_US :: nat where "GMAX4002_STREAM_DELAY_US = 25000"
definition GMAX4002_STREAM_DELAY_RANGE_US :: nat where "GMAX4002_STREAM_DELAY_RANGE_US = 1000"
definition GMAX4002_XCLR_MIN_DELAY_US :: nat where "GMAX4002_XCLR_MIN_DELAY_US = 10000"
definition GMAX4002_XCLR_DELAY_RANGE_US :: nat where "GMAX4002_XCLR_DELAY_RANGE_US = 1000"

definition GMAX4002_EXPOSURE_MIN :: int where "GMAX4002_EXPOSURE_MIN = 1000"
definition GMAX4002_EXPOSURE_STEP :: nat where "GMAX4002_EXPOSURE_STEP = 1000"
definition GMAX4002_EXPOSURE_DEFAULT :: int where "GMAX4002_EXPOSURE_DEFAULT = 1000"
definition GMAX4002_EXPOSURE_MAX :: int where "GMAX4002_EXPOSURE_MAX = 1000"

definition GMAX4002_REG_ANALOG_GAIN :: cci_reg where "GMAX4002_REG_ANALOG_GAIN = CCI_REG8 0x2EC9"
definition GMAX4002_ANA_GAIN_MIN :: int where "GMAX4002_ANA_GAIN_MIN = 0"
definition GMAX4002_ANA_GAIN_MAX :: int where "GMAX4002_ANA_GAIN_MAX = 15"
definition GMAX4002_ANA_GAIN_STEP :: nat where "GMAX4002_ANA_GAIN_STEP = 1"
definition GMAX4002_ANA_GAIN_DEFAULT :: int where "GMAX4002_ANA_GAIN_DEFAULT = 0"

definition GMAX4002_REG_FLIP_H :: cci_reg where "GMAX4002_REG_FLIP_H = CCI_REG8 0x3002"
definition GMAX4002_REG_FLIP_V :: cci_reg where "GMAX4002_REG_FLIP_V = CCI_REG8 0x2E05"

definition GMAX4002_PIXEL_RATE :: int where "GMAX4002_PIXEL_RATE = 60000000"
definition GMAX4002_LINK_FREQ :: int where "GMAX4002_LINK_FREQ = 600000000"

definition gmax4002_link_freq_menu :: "int list" where
  "gmax4002_link_freq_menu = [GMAX4002_LINK_FREQ]"

definition GMAX4002_NATIVE_WIDTH :: nat where "GMAX4002_NATIVE_WIDTH = 2048"
definition GMAX4002_NATIVE_HEIGHT :: nat where "GMAX4002_NATIVE_HEIGHT = 1218"
definition GMAX4002_PIXEL_ARRAY_LEFT :: nat where "GMAX4002_PIXEL_ARRAY_LEFT = 0"
definition GMAX4002_PIXEL_ARRAY_TOP :: nat where "GMAX4002_PIXEL_ARRAY_TOP = 18"
definition GMAX4002_PIXEL_ARRAY_WIDTH :: nat where "GMAX4002_PIXEL_ARRAY_WIDTH = 2048"
definition GMAX4002_PIXEL_ARRAY_HEIGHT :: nat where "GMAX4002_PIXEL_ARRAY_HEIGHT = 1200"

text \<open>The common register table, in the order of the source.\<close>

definition mode_common_regs :: "(cci_reg \<times> 64 word) list" where
  "mode_common_regs =
    [
     (CCI_REG8 0x2E00, 0x00), (CCI_REG8 0x2E01, 0x01), (CCI_REG8 0x2E02, 0x00), (CCI_REG8 0x2E03, 0x06),
     (CCI_REG8 0x2E04, 0x00), (CCI_REG8 0x2E05, 0x08), (CCI_REG8 0x2E06, 0x02), (CCI_REG8 0x2E07, 0x00),
     (CCI_REG8 0x2E08, 0x00), (CCI_REG8 0x2E09, 0x00), (CCI_REG8 0x2E0A, 0x00), (CCI_REG8 0x2E0B, 0x01),
     (CCI_REG8 0x2E0C, 0x00), (CCI_REG8 0x2E0D, 0xBE), (CCI_REG8 0x2E0E, 0x04), (CCI_REG8 0x2E0F, 0x01),
     (CCI_REG8 0x2E10, 0x00), (CCI_REG8 0x2E11, 0x12), (CCI_REG8 0x2E12, 0x00), (CCI_REG8 0x2E13, 0x00),
     (CCI_REG8 0x2E14, 0xBA), (CCI_REG8 0x2E15, 0x04), (CCI_REG8 0x2E16, 0x00), (CCI_REG8 0x2E17, 0x00),
     (CCI_REG8 0x2E18, 0x08), (CCI_REG8 0x2E19, 0x00), (CCI_REG8 0x2E1A, 0xB0), (CCI_REG8 0x2E1B, 0x04),
     (CCI_REG8 0x2E1C, 0x00), (CCI_REG8 0x2E1D, 0x00), (CCI_REG8 0x2E1E, 0x00), (CCI_REG8 0x2E1F, 0x00),
     (CCI_REG8 0x2E20, 0x00), (CCI_REG8 0x2E21, 0x00), (CCI_REG8 0x2E22, 0x00), (CCI_REG8 0x2E23, 0x00),
     (CCI_REG8 0x2E24, 0x00), (CCI_REG8 0x2E25, 0x00), (CCI_REG8 0x2E26, 0x00), (CCI_REG8 0x2E27, 0x00),
     (CCI_REG8 0x2E28, 0x00), (CCI_REG8 0x2E29, 0x00), (CCI_REG8 0x2E2A, 0x00), (CCI_REG8 0x2E2B, 0x00),
     (CCI_REG8 0x2E2C, 0x00), (CCI_REG8 0x2E2D, 0x00), (CCI_REG8 0x2E2E, 0x00), (CCI_REG8 0x2E2F, 0x00),
     (CCI_REG8 0x2E30, 0x00), (CCI_REG8 0x2E31, 0x00), (CCI_REG8 0x2E32, 0x00), (CCI_REG8 0x2E33, 0x00),
     (CCI_REG8 0x2E34, 0x00), (CCI_REG8 0x2E35, 0x00), (CCI_REG8 0x2E36, 0x00), (CCI_REG8 0x2E37, 0x00),
     (CCI_REG8 0x2E38, 0x00), (CCI_REG8 0x2E39, 0x00), (CCI_REG8 0x2E3A, 0x00), (CCI_REG8 0x2E3B, 0x00),
     (CCI_REG8 0x2E3C, 0x00), (CCI_REG8 0x2E3D, 0x00), (CCI_REG8 0x2E3E, 0x00), (CCI_REG8 0x2E3F, 0x00),
     (CCI_REG8 0x2E40, 0x00), (CCI_REG8 0x2E41, 0x00), (CCI_REG8 0x2E42, 0x00), (CCI_REG8 0x2E43, 0x00),
     (CCI_REG8 0x2E44, 0x00), (CCI_REG8 0x2E45, 0x00), (CCI_REG8 0x2E46, 0x00), (CCI_REG8 0x2E47, 0x00),
     (CCI_REG8 0x2E48, 0x00), (CCI_REG8 0x2E49, 0x00), (CCI_REG8 0x2E4A, 0x00), (CCI_REG8 0x2E4B, 0x00),
     (CCI_REG8 0x2E4C, 0x00), (CCI_REG8 0x2E4D, 0x00), (CCI_REG8 0x2E4E, 0x00), (CCI_REG8 0x2E4F, 0x00),
     (CCI_REG8 0x2E50, 0x00), (CCI_REG8 0x2E51, 0x00), (CCI_REG8 0x2E52, 0x00), (CCI_REG8 0x2E53, 0x00),
     (CCI_REG8 0x2E54, 0x00), (CCI_REG8 0x2E55, 0x00), (CCI_REG8 0x2E56, 0x00), (CCI_REG8 0x2E57, 0x00),
     (CCI_REG8 0x2E58, 0x01), (CCI_REG8 0x2E59, 0x14), (CCI_REG8 0x2E5A, 0x00), (CCI_REG8 0x2E5B, 0x00),
     (CCI_REG8 0x2E5C, 0x04), (CCI_REG8 0x2E5D, 0x22), (CCI_REG8 0x2E5E, 0x01), (CCI_REG8 0x2E5F, 0x02),
     (CCI_REG8 0x2E60, 0x02), (CCI_REG8 0x2E61, 0x02), (CCI_REG8 0x2E62, 0x06), (CCI_REG8 0x2E63, 0x28),
     (CCI_REG8 0x2E64, 0x01), (CCI_REG8 0x2E65, 0x00), (CCI_REG8 0x2E66, 0x02), (CCI_REG8 0x2E67, 0x00),
     (CCI_REG8 0x2E68, 0x24), (CCI_REG8 0x2E69, 0x05), (CCI_REG8 0x2E6A, 0x62), (CCI_REG8 0x2E6B, 0x03),
     (CCI_REG8 0x2E6C, 0x46), (CCI_REG8 0x2E6D, 0x78), (CCI_REG8 0x2E6E, 0x02), (CCI_REG8 0x2E6F, 0x2A),
     (CCI_REG8 0x2E70, 0xFF), (CCI_REG8 0x2E71, 0xFF), (CCI_REG8 0x2E72, 0xFF), (CCI_REG8 0x2E73, 0xFF),
     (CCI_REG8 0x2E74, 0x32), (CCI_REG8 0x2E75, 0x64), (CCI_REG8 0x2E76, 0x14), (CCI_REG8 0x2E77, 0xFF),
     (CCI_REG8 0x2E78, 0xFF), (CCI_REG8 0x2E79, 0xFF), (CCI_REG8 0x2E7A, 0x01), (CCI_REG8 0x2E7B, 0x87),
     (CCI_REG8 0x2E7C, 0xFF), (CCI_REG8 0x2E7D, 0xFF), (CCI_REG8 0x2E7E, 0x01), (CCI_REG8 0x2E7F, 0x88),
     (CCI_REG8 0x2E80, 0x05), (CCI_REG8 0x2E81, 0x24), (CCI_REG8 0x2E82, 0xFF), (CCI_REG8 0x2E83, 0xFF),
     (CCI_REG8 0x2E84, 0x05), (CCI_REG8 0x2E85, 0x31), (CCI_REG8 0x2E86, 0x5C), (CCI_REG8 0x2E87, 0x84),
     (CCI_REG8 0x2E88, 0x03), (CCI_REG8 0x2E89, 0x0C), (CCI_REG8 0x2E8A, 0x13), (CCI_REG8 0x2E8B, 0x34),
     (CCI_REG8 0x2E8C, 0xFF), (CCI_REG8 0x2E8D, 0xFF), (CCI_REG8 0x2E8E, 0xFF), (CCI_REG8 0x2E8F, 0xFF),
     (CCI_REG8 0x2E90, 0xFF), (CCI_REG8 0x2E91, 0xFF), (CCI_REG8 0x2E92, 0xFF), (CCI_REG8 0x2E93, 0xFF),
     (CCI_REG8 0x2E94, 0x04), (CCI_REG8 0x2E95, 0x0C), (CCI_REG8 0x2E96, 0x14), (CCI_REG8 0x2E97, 0x34),
     (CCI_REG8 0x2E98, 0x01), (CCI_REG8 0x2E99, 0x02), (CCI_REG8 0x2E9A, 0x11), (CCI_REG8 0x2E9B, 0x12),
     (CCI_REG8 0x2E9C, 0x04), (CCI_REG8 0x2E9D, 0x0C), (CCI_REG8 0x2E9E, 0x14), (CCI_REG8 0x2E9F, 0x34),
     (CCI_REG8 0x2EA0, 0x0B), (CCI_REG8 0x2EA1, 0x0C), (CCI_REG8 0x2EA2, 0x33), (CCI_REG8 0x2EA3, 0x34),
     (CCI_REG8 0x2EA4, 0x0C), (CCI_REG8 0x2EA5, 0x14), (CCI_REG8 0x2EA6, 0x10), (CCI_REG8 0x2EA7, 0xFF),
     (CCI_REG8 0x2EA8, 0x01), (CCI_REG8 0x2EA9, 0x02), (CCI_REG8 0x2EAA, 0x11), (CCI_REG8 0x2EAB, 0x12),
     (CCI_REG8 0x2EAC, 0x01), (CCI_REG8 0x2EAD, 0x02), (CCI_REG8 0x2EAE, 0xFF), (CCI_REG8 0x2EAF, 0xFF),
     (CCI_REG8 0x2EB0, 0xFF), (CCI_REG8 0x2EB1, 0xFF), (CCI_REG8 0x2EB2, 0xFF), (CCI_REG8 0x2EB3, 0xFF),
     (CCI_REG8 0x2EB4, 0xFF), (CCI_REG8 0x2EB5, 0xFF), (CCI_REG8 0x2EB6, 0x2E), (CCI_REG8 0x2EB7, 0x1C),
     (CCI_REG8 0x2EB8, 0x1E), (CCI_REG8 0x2EB9, 0x0C), (CCI_REG8 0x2EBA, 0x03), (CCI_REG8 0x2EBB, 0x00),
     (CCI_REG8 0x2EBC, 0x01), (CCI_REG8 0x2EBD, 0x00), (CCI_REG8 0x2EBE, 0x01), (CCI_REG8 0x2EBF, 0x03),
     (CCI_REG8 0x2EC0, 0x01), (CCI_REG8 0x2EC1, 0x01), (CCI_REG8 0x2EC2, 0x00), (CCI_REG8 0x2EC3, 0x01),
     (CCI_REG8 0x2EC4, 0x1E), (CCI_REG8 0x2EC5, 0x0C), (CCI_REG8 0x2EC6, 0x00), (CCI_REG8 0x2EC7, 0x00),
     (CCI_REG8 0x2EC8, 0x01), (CCI_REG8 0x2EC9, 0x01), (CCI_REG8 0x2ECA, 0x03), (CCI_REG8 0x2ECB, 0x01),
     (CCI_REG8 0x3000, 0x01), (CCI_REG8 0x3001, 0x02), (CCI_REG8 0x3002, 0x00), (CCI_REG8 0x3003, 0x00),
     (CCI_REG8 0x3004, 0x03), (CCI_REG8 0x3005, 0x00), (CCI_REG8 0x3006, 0x08), (CCI_REG8 0x3007, 0x10),
     (CCI_REG8 0x3008, 0x00), (CCI_REG8 0x3009, 0x04), (CCI_REG8 0x300A, 0x01), (CCI_REG8 0x300B, 0x00),
     (CCI_REG8 0x300C, 0x01), (CCI_REG8 0x300D, 0x0F), (CCI_REG8 0x300E, 0x00), (CCI_REG8 0x300F, 0x01),
     (CCI_REG8 0x3010, 0x01), (CCI_REG8 0x3011, 0x01), (CCI_REG8 0x3012, 0x00), (CCI_REG8 0x3013, 0x00),
     (CCI_REG8 0x3014, 0x8E), (CCI_REG8 0x3015, 0x09), (CCI_REG8 0x3016, 0x04), (CCI_REG8 0x3017, 0x00),
     (CCI_REG8 0x3018, 0x08), (CCI_REG8 0x3019, 0x07), (CCI_REG8 0x301A, 0x10), (CCI_REG8 0x301B, 0x07),
     (CCI_REG8 0x301C, 0x27), (CCI_REG8 0x301D, 0x00), (CCI_REG8 0x301E, 0x0B), (CCI_REG8 0x301F, 0x09),
     (CCI_REG8 0x3020, 0x05), (CCI_REG8 0x3021, 0x06), (CCI_REG8 0x3022, 0x96), (CCI_REG8 0x3023, 0xF8),
     (CCI_REG8 0x3024, 0x14), (CCI_REG8 0x3025, 0x00), (CCI_REG8 0x3026, 0x00), (CCI_REG8 0x3027, 0x00),
     (CCI_REG8 0x3028, 0x00), (CCI_REG8 0x3029, 0x00), (CCI_REG8 0x302A, 0x04), (CCI_REG8 0x302B, 0x04),
     (CCI_REG8 0x302C, 0x04), (CCI_REG8 0x302D, 0x04), (CCI_REG8 0x302E, 0x00), (CCI_REG8 0x302F, 0x00),
     (CCI_REG8 0x3030, 0x00), (CCI_REG8 0x3031, 0x00), (CCI_REG8 0x3039, 0x00), (CCI_REG8 0x303A, 0x00),
     (CCI_REG8 0x303B, 0x00), (CCI_REG8 0x303C, 0x00), (CCI_REG8 0x303D, 0x01), (CCI_REG8 0x303E, 0x00),
     (CCI_REG8 0x303F, 0x00), (CCI_REG8 0x3040, 0x10), (CCI_REG8 0x3041, 0x00), (CCI_REG8 0x3042, 0x10),
     (CCI_REG8 0x3043, 0x00), (CCI_REG8 0x3044, 0x19), (CCI_REG8 0x3045, 0x10), (CCI_REG8 0x3046, 0x00),
     (CCI_REG8 0x3047, 0x00), (CCI_REG8 0x3048, 0x00), (CCI_REG8 0x3049, 0x00), (CCI_REG8 0x304A, 0x00),
     (CCI_REG8 0x304B, 0x00), (CCI_REG8 0x304C, 0x00), (CCI_REG8 0x304D, 0x00), (CCI_REG8 0x304E, 0x00),
     (CCI_REG8 0x304F, 0x02), (CCI_REG8 0x3050, 0x0A), (CCI_REG8 0x3051, 0x02), (CCI_REG8 0x3052, 0x00),
     (CCI_REG8 0x3053, 0x10), (CCI_REG8 0x3054, 0x00), (CCI_REG8 0x3055, 0x00), (CCI_REG8 0x3056, 0x5E),
     (CCI_REG8 0x3057, 0x01), (CCI_REG8 0x3058, 0x00), (CCI_REG8 0x3059, 0x01), (CCI_REG8 0x305A, 0x00),
     (CCI_REG8 0x305B, 0x10), (CCI_REG8 0x305C, 0x00), (CCI_REG8 0x305D, 0x04), (CCI_REG8 0x305E, 0x00),
     (CCI_REG8 0x305F, 0x00), (CCI_REG8 0x3060, 0x00), (CCI_REG8 0x3200, 0x20), (CCI_REG8 0x3201, 0x00),
     (CCI_REG8 0x3202, 0x04), (CCI_REG8 0x3203, 0x03), (CCI_REG8 0x3204, 0x20), (CCI_REG8 0x3205, 0x03),
     (CCI_REG8 0x3206, 0x03), (CCI_REG8 0x3207, 0x03), (CCI_REG8 0x3208, 0x16), (CCI_REG8 0x3209, 0x04),
     (CCI_REG8 0x320A, 0x00), (CCI_REG8 0x320B, 0x16), (CCI_REG8 0x320C, 0x04), (CCI_REG8 0x320D, 0x1A),
     (CCI_REG8 0x320E, 0x0F), (CCI_REG8 0x320F, 0x00), (CCI_REG8 0x3210, 0x11), (CCI_REG8 0x3211, 0x07),
     (CCI_REG8 0x3212, 0x00), (CCI_REG8 0x3213, 0x0E), (CCI_REG8 0x3214, 0x1B), (CCI_REG8 0x3215, 0x03),
     (CCI_REG8 0x3216, 0x3F), (CCI_REG8 0x3217, 0x04), (CCI_REG8 0x3218, 0x07), (CCI_REG8 0x3219, 0x00),
     (CCI_REG8 0x321A, 0x3F), (CCI_REG8 0x321B, 0x07), (CCI_REG8 0x321C, 0x00), (CCI_REG8 0x321D, 0x04),
     (CCI_REG8 0x321E, 0x3F), (CCI_REG8 0x321F, 0x04), (CCI_REG8 0x3220, 0x07), (CCI_REG8 0x3221, 0x00),
     (CCI_REG8 0x3222, 0x14), (CCI_REG8 0x3223, 0x03), (CCI_REG8 0x3224, 0x00), (CCI_REG8 0x3225, 0x00),
     (CCI_REG8 0x3226, 0x3F), (CCI_REG8 0x3227, 0x03), (CCI_REG8 0x3228, 0x00), (CCI_REG8 0x3229, 0x00),
     (CCI_REG8 0x322A, 0x06), (CCI_REG8 0x322B, 0x03), (CCI_REG8 0x322C, 0x1B), (CCI_REG8 0x322D, 0x00),
     (CCI_REG8 0x322E, 0x07), (CCI_REG8 0x322F, 0x03), (CCI_REG8 0x3230, 0x0E), (CCI_REG8 0x3231, 0x41),
     (CCI_REG8 0x3232, 0x53), (CCI_REG8 0x3233, 0x4E), (CCI_REG8 0x3234, 0x47), (CCI_REG8 0x3235, 0x47),
     (CCI_REG8 0x3236, 0x47), (CCI_REG8 0x3237, 0x47), (CCI_REG8 0x3238, 0x50), (CCI_REG8 0x3239, 0x47),
     (CCI_REG8 0x323A, 0x53), (CCI_REG8 0x323B, 0x53), (CCI_REG8 0x323C, 0x4A), (CCI_REG8 0x323D, 0x4A),
     (CCI_REG8 0x323E, 0x68), (CCI_REG8 0x323F, 0x0A), (CCI_REG8 0x3240, 0x00), (CCI_REG8 0x3241, 0x1A),
     (CCI_REG8 0x3242, 0x20), (CCI_REG8 0x3243, 0x04), (CCI_REG8 0x3244, 0x13), (CCI_REG8 0x3245, 0x13),
     (CCI_REG8 0x3246, 0x30), (CCI_REG8 0x3247, 0x30), (CCI_REG8 0x3248, 0x7D), (CCI_REG8 0x3249, 0x1C),
     (CCI_REG8 0x324A, 0x1E), (CCI_REG8 0x324B, 0x00), (CCI_REG8 0x324C, 0x00), (CCI_REG8 0x324D, 0x00),
     (CCI_REG8 0x324E, 0x00), (CCI_REG8 0x3300, 0x00), (CCI_REG8 0x3301, 0x00), (CCI_REG8 0x3302, 0x00),
     (CCI_REG8 0x3303, 0x00), (CCI_REG8 0x3304, 0x00), (CCI_REG8 0x3305, 0x00), (CCI_REG8 0x3306, 0x00),
     (CCI_REG8 0x3307, 0x01), (CCI_REG8 0x3308, 0x00), (CCI_REG8 0x3311, 0xD0), (CCI_REG8 0x3312, 0x07),
     (CCI_REG8 0x3313, 0xB8), (CCI_REG8 0x3314, 0x0B), (CCI_REG8 0x3315, 0xF4), (CCI_REG8 0x3316, 0x01),
     (CCI_REG8 0x3317, 0xE8), (CCI_REG8 0x3318, 0x03), (CCI_REG8 0x3319, 0xE8), (CCI_REG8 0x331A, 0x03),
     (CCI_REG8 0x331B, 0xE8), (CCI_REG8 0x331C, 0x03), (CCI_REG8 0x331D, 0xA0), (CCI_REG8 0x331E, 0x0F),
     (CCI_REG8 0x331F, 0xD0), (CCI_REG8 0x3320, 0x07), (CCI_REG8 0x3321, 0x01), (CCI_REG8 0x3322, 0x00),
     (CCI_REG8 0x3323, 0x01), (CCI_REG8 0x3324, 0x00), (CCI_REG8 0x3325, 0x01), (CCI_REG8 0x3326, 0x00),
     (CCI_REG8 0x3327, 0x01), (CCI_REG8 0x3328, 0x00), (CCI_REG8 0x3329, 0x01), (CCI_REG8 0x332A, 0x00),
     (CCI_REG8 0x332B, 0x01), (CCI_REG8 0x332C, 0x00), (CCI_REG8 0x332D, 0xA0), (CCI_REG8 0x332E, 0x0F),
     (CCI_REG8 0x332F, 0xE8), (CCI_REG8 0x3330, 0x03), (CCI_REG8 0x3331, 0xD0), (CCI_REG8 0x3332, 0x07),
     (CCI_REG8 0x3333, 0x03), (CCI_REG8 0x3334, 0x00), (CCI_REG8 0x3335, 0xA0), (CCI_REG8 0x3336, 0x0F),
     (CCI_REG8 0x3337, 0xD0), (CCI_REG8 0x3338, 0x07), (CCI_REG8 0x3339, 0xF4), (CCI_REG8 0x333A, 0x01),
     (CCI_REG8 0x333B, 0x3C), (CCI_REG8 0x333C, 0x00), (CCI_REG8 0x333D, 0xB8), (CCI_REG8 0x333E, 0x0B),
     (CCI_REG8 0x333F, 0xE8), (CCI_REG8 0x3340, 0x03), (CCI_REG8 0x3341, 0xE8), (CCI_REG8 0x3342, 0x03),
     (CCI_REG8 0x3343, 0xE8), (CCI_REG8 0x3344, 0x03), (CCI_REG8 0x3345, 0x55), (CCI_REG8 0x3346, 0x55),
     (CCI_REG8 0x3347, 0x55), (CCI_REG8 0x3348, 0x55), (CCI_REG8 0x3349, 0x55), (CCI_REG8 0x334A, 0x55),
     (CCI_REG8 0x334B, 0x55), (CCI_REG8 0x334C, 0x55), (CCI_REG8 0x334D, 0x10), (CCI_REG8 0x334E, 0x32),
     (CCI_REG8 0x334F, 0x54), (CCI_REG8 0x3350, 0x9A), (CCI_REG8 0x3351, 0xCD), (CCI_REG8 0x3352, 0x7B),
     (CCI_REG8 0x3353, 0xE8), (CCI_REG8 0x3354, 0x6F), (CCI_REG8 0x3355, 0x10), (CCI_REG8 0x3356, 0x42),
     (CCI_REG8 0x3357, 0x95), (CCI_REG8 0x3358, 0xEA), (CCI_REG8 0x3359, 0xCD), (CCI_REG8 0x335A, 0x3B),
     (CCI_REG8 0x335B, 0x87), (CCI_REG8 0x335C, 0x6E), (CCI_REG8 0x335D, 0x00), (CCI_REG8 0x335E, 0x00),
     (CCI_REG8 0x335F, 0x00), (CCI_REG8 0x3360, 0x00), (CCI_REG8 0x3361, 0x01), (CCI_REG8 0x3362, 0x00),
     (CCI_REG8 0x3400, 0x00), (CCI_REG8 0x3401, 0x12), (CCI_REG8 0x3402, 0x00), (CCI_REG8 0x3403, 0x00),
     (CCI_REG8 0x3404, 0x64), (CCI_REG8 0x3405, 0x02)
    ]"

text \<open>The format codes offered, and the monochrome table that nothing reads.\<close>

definition codes :: "nat list" where
  "codes =
    [MEDIA_BUS_FMT_SRGGB10_1X10, MEDIA_BUS_FMT_SGRBG10_1X10,
     MEDIA_BUS_FMT_SGBRG10_1X10, MEDIA_BUS_FMT_SBGGR10_1X10]"

definition mono_codes :: "nat list" where
  "mono_codes = [MEDIA_BUS_FMT_Y10_1X10]"

section \<open>Format resolution and enumeration\<close>

text \<open>
  \<^verbatim>\<open>gmax4002_get_format_code\<close> scans \<open>codes\<close> from index 0 and returns the first entry
  equal to the request, or entry 0 when the scan runs off the end. The device pointer the
  C function also receives is never read.
\<close>

function get_format_code_loop :: "nat \<Rightarrow> nat \<Rightarrow> nat" where
  "get_format_code_loop i code =
     (if i < length codes then
        (if codes ! i = code then codes ! i else get_format_code_loop (i + 1) code)
      else codes ! 0)"
  by pat_completeness auto
termination
  by (relation "measure (\<lambda>(i, code). length codes - i)") auto

declare get_format_code_loop.simps [simp del]

definition gmax4002_get_format_code :: "nat \<Rightarrow> nat" where
  "gmax4002_get_format_code code = get_format_code_loop 0 code"

record v4l2_subdev_mbus_code_enum =
  mce_index :: nat
  mce_code :: nat

text \<open>
  The index is a 32-bit unsigned field, so the product \<open>index * 4\<close> is taken modulo
  \<open>2 ^ 32\<close>. The table read is guarded by the range check before it.
\<close>

definition gmax4002_enum_mbus_code ::
  "v4l2_subdev_mbus_code_enum \<Rightarrow> int \<times> v4l2_subdev_mbus_code_enum" where
  "gmax4002_enum_mbus_code code =
     (let tbl = codes;
          entries = length codes div 4
      in if mce_index code \<ge> entries then (- EINVAL, code)
         else (0, code\<lparr>mce_code :=
                 gmax4002_get_format_code (tbl ! ((mce_index code * 4) mod 2 ^ 32))\<rparr>))"

section \<open>Selection\<close>

record v4l2_rect =
  rect_left :: int
  rect_top :: int
  rect_width :: nat
  rect_height :: nat

record v4l2_mbus_framefmt =
  fmt_width :: nat
  fmt_height :: nat
  fmt_code :: nat

text \<open>The per-pad state the framework keeps: the format and the active crop of pad 0.\<close>

record v4l2_subdev_state =
  pad_format :: v4l2_mbus_framefmt
  pad_crop :: v4l2_rect

record v4l2_subdev_selection =
  sel_target :: nat
  sel_r :: v4l2_rect

text \<open>
  \<^verbatim>\<open>gmax4002_get_selection\<close> first looks up a mode for the current format and then never
  reads it; the switch on the target is all that decides the result. On the error path
  the rectangle of the request is left as it was.
\<close>

definition gmax4002_get_selection ::
  "v4l2_subdev_state \<Rightarrow> v4l2_subdev_selection \<Rightarrow> int \<times> v4l2_subdev_selection" where
  "gmax4002_get_selection sd_state sel =
     (if sel_target sel = V4L2_SEL_TGT_NATIVE_SIZE then
        (0, sel\<lparr>sel_r := \<lparr>rect_left = 0, rect_top = 0,
                           rect_width = GMAX4002_NATIVE_WIDTH,
                           rect_height = GMAX4002_NATIVE_HEIGHT\<rparr>\<rparr>)
      else if sel_target sel = V4L2_SEL_TGT_CROP_BOUNDS
              \<or> sel_target sel = V4L2_SEL_TGT_CROP_DEFAULT then
        (0, sel\<lparr>sel_r := (sel_r sel)\<lparr>rect_top := int GMAX4002_PIXEL_ARRAY_TOP,
                                      rect_left := int GMAX4002_PIXEL_ARRAY_LEFT,
                                      rect_width := GMAX4002_PIXEL_ARRAY_WIDTH,
                                      rect_height := GMAX4002_PIXEL_ARRAY_HEIGHT\<rparr>\<rparr>)
      else if sel_target sel = V4L2_SEL_TGT_CROP then
        (0, sel\<lparr>sel_r := pad_crop sd_state\<rparr>)
      else (- EINVAL, sel))"

section \<open>Hardware, seen as a trace of operations\<close>

text \<open>
  Every operation the driver asks of the outside world is appended to a trace, fallible
  ones together with the code they returned. The outside world is a fault oracle: the
  operation issued when the trace has length \<open>n\<close> fails with error number \<open>fault n\<close>,
  and succeeds when that is 0. Diagnostic printing is not part of the trace.
\<close>

datatype hw_event =
    RegWrite nat "8 word" int
  | RegRead nat int
  | RegulatorBulkEnable int
  | RegulatorBulkDisable
  | ClkPrepareEnable int
  | ClkDisableUnprepare
  | GpiodSetValue nat
  | Usleep nat nat

text \<open>
  A control of the V4L2 control framework: the fields the driver passes at creation, the
  current value, and the two flags the driver depends on.
\<close>

record v4l2_ctrl =
  ctrl_id :: nat
  minimum :: int
  maximum :: int
  step :: nat
  default_value :: int
  val :: int
  qmenu_int :: "int list"
  read_only :: bool
  grabbed :: bool

record gmax4002 =
  trace :: "hw_event list"
  fault :: "nat \<Rightarrow> nat"
  regmap :: "nat \<Rightarrow> 8 word"
  xclk_rate :: nat
  rpm_active :: bool
  usage_count :: nat
  pixel_rate :: v4l2_ctrl
  link_freq :: v4l2_ctrl
  exposure :: v4l2_ctrl
  gain :: v4l2_ctrl
  vflip :: v4l2_ctrl
  hflip :: v4l2_ctrl
  vblank :: v4l2_ctrl
  hblank :: v4l2_ctrl
  streaming :: bool

definition hw_ret :: "gmax4002 \<Rightarrow> int" where
  "hw_ret s = - int (fault s (length (trace s)))"

definition usleep_range :: "nat \<Rightarrow> nat \<Rightarrow> gmax4002 \<Rightarrow> gmax4002" where
  "usleep_range lo hi s = s\<lparr>trace := trace s @ [Usleep lo hi]\<rparr>"

definition gpiod_set_value_cansleep :: "nat \<Rightarrow> gmax4002 \<Rightarrow> gmax4002" where
  "gpiod_set_value_cansleep v s = s\<lparr>trace := trace s @ [GpiodSetValue v]\<rparr>"

definition regulator_bulk_enable :: "gmax4002 \<Rightarrow> int \<times> gmax4002" where
  "regulator_bulk_enable s =
     (let ret = hw_ret s in (ret, s\<lparr>trace := trace s @ [RegulatorBulkEnable ret]\<rparr>))"

definition regulator_bulk_disable :: "gmax4002 \<Rightarrow> gmax4002" where
  "regulator_bulk_disable s = s\<lparr>trace := trace s @ [RegulatorBulkDisable]\<rparr>"

definition clk_prepare_enable :: "gmax4002 \<Rightarrow> int \<times> gmax4002" where
  "clk_prepare_enable s =
     (let ret = hw_ret s in (ret, s\<lparr>trace := trace s @ [ClkPrepareEnable ret]\<rparr>))"

definition clk_disable_unprepare :: "gmax4002 \<Rightarrow> gmax4002" where
  "clk_disable_unprepare s = s\<lparr>trace := trace s @ [ClkDisableUnprepare]\<rparr>"

subsection \<open>The register bus\<close>

text \<open>
  The CCI helpers of the kernel, for 8-bit registers. A successful write stores the byte;
  a read returns the stored byte. The optional error pointer of the C interface is an
  \<open>int option\<close>: \<open>None\<close> is the null pointer, \<open>Some e\<close> a pointer to an integer that
  holds \<open>e\<close>; each helper returns the new content with its result. A helper called with
  a non-zero error already recorded does nothing and returns that error.
\<close>

definition regmap_bulk_write :: "nat \<Rightarrow> 8 word \<Rightarrow> gmax4002 \<Rightarrow> int \<times> gmax4002" where
  "regmap_bulk_write addr b s =
     (let ret = hw_ret s
      in (ret, s\<lparr>trace := trace s @ [RegWrite addr b ret],
                 regmap := (if ret = 0 then (regmap s)(addr := b) else regmap s)\<rparr>))"

definition regmap_bulk_read :: "nat \<Rightarrow> gmax4002 \<Rightarrow> int \<times> 8 word \<times> gmax4002" where
  "regmap_bulk_read addr s =
     (let ret = hw_ret s
      in (ret, regmap s addr, s\<lparr>trace := trace s @ [RegRead addr ret]\<rparr>))"

definition err_set :: "int option \<Rightarrow> bool" where
  "err_set err = (case err of None \<Rightarrow> False | Some e \<Rightarrow> e \<noteq> 0)"

definition err_store :: "int \<Rightarrow> int option \<Rightarrow> int option" where
  "err_store ret err = (if ret \<noteq> 0 \<and> err \<noteq> None then Some ret else err)"

fun cci_write ::
  "cci_reg \<Rightarrow> 64 word \<Rightarrow> int option \<Rightarrow> gmax4002 \<Rightarrow> int \<times> int option \<times> gmax4002" where
  "cci_write (CCI_REG8 addr) v err s =
     (if err_set err then (the err, err, s)
      else (case regmap_bulk_write addr (ucast v) s of
              (ret, s') \<Rightarrow> (ret, err_store ret err, s')))"

fun cci_read ::
  "cci_reg \<Rightarrow> int option \<Rightarrow> gmax4002 \<Rightarrow> int \<times> 64 word \<times> int option \<times> gmax4002" where
  "cci_read (CCI_REG8 addr) err s =
     (if err_set err then (the err, 0, err, s)
      else (case regmap_bulk_read addr s of
              (ret, b, s') \<Rightarrow> (ret, (if ret = 0 then ucast b else 0), err_store ret err, s')))"

definition cci_update_bits ::
  "cci_reg \<Rightarrow> 64 word \<Rightarrow> 64 word \<Rightarrow> int option \<Rightarrow> gmax4002
     \<Rightarrow> int \<times> int option \<times> gmax4002" where
  "cci_update_bits reg msk v err s =
     (case cci_read reg err s of
        (ret, readval, err', s') \<Rightarrow>
          if ret \<noteq> 0 then (ret, err', s')
          else cci_write reg ((readval AND NOT msk) OR (v AND msk)) err' s')"

fun cci_multi_reg_write ::
  "(cci_reg \<times> 64 word) list \<Rightarrow> int option \<Rightarrow> gmax4002 \<Rightarrow> int \<times> int option \<times> gmax4002" where
  "cci_multi_reg_write [] err s = (0, err, s)"
| "cci_multi_reg_write ((reg, v) # regs) err s =
     (case cci_write reg v err s of
        (ret, err', s') \<Rightarrow>
          if ret \<noteq> 0 then (ret, err', s') else cci_multi_reg_write regs err' s')"

text \<open>The bit-field macros, on 64-bit values.\<close>

definition BIT :: "nat \<Rightarrow> 64 word" where
  "BIT n = push_bit n 1"

definition GENMASK :: "nat \<Rightarrow> nat \<Rightarrow> 64 word" where
  "GENMASK h l = push_bit l (mask (h + 1 - l))"

definition bf_shf :: "64 word \<Rightarrow> nat" where
  "bf_shf m = length (takeWhile (\<lambda>n. \<not> bit m n) [0..<64])"

definition FIELD_PREP :: "64 word \<Rightarrow> 64 word \<Rightarrow> 64 word" where
  "FIELD_PREP m v = push_bit (bf_shf m) v AND m"

section \<open>Power sequencing\<close>

definition gmax4002_power_on :: "gmax4002 \<Rightarrow> int \<times> gmax4002" where
  "gmax4002_power_on s =
     (case regulator_bulk_enable s of
        (ret, s1) \<Rightarrow>
          if ret \<noteq> 0 then (ret, s1)
          else (case clk_prepare_enable s1 of
                  (ret, s2) \<Rightarrow>
                    if ret \<noteq> 0 then (ret, regulator_bulk_disable s2)
                    else (0, usleep_range GMAX4002_XCLR_MIN_DELAY_US
                               (GMAX4002_XCLR_MIN_DELAY_US + GMAX4002_XCLR_DELAY_RANGE_US)
                               (gpiod_set_value_cansleep 1 s2))))"

definition gmax4002_power_off :: "gmax4002 \<Rightarrow> int \<times> gmax4002" where
  "gmax4002_power_off s =
     (0, clk_disable_unprepare (regulator_bulk_disable (gpiod_set_value_cansleep 0 s)))"

subsection \<open>Runtime power management\<close>

text \<open>
  The runtime-PM core of the kernel, reduced to what the driver relies on while runtime
  PM is enabled (the driver enables it before it creates its controls and frees the
  controls before it disables it): a status, which is active or suspended, and a usage
  counter. \<^verbatim>\<open>gmax4002_power_on\<close> is the resume callback and \<^verbatim>\<open>gmax4002_power_off\<close> the
  suspend callback. Dropping a reference never suspends at once: the core suspends an
  unused device later, which \<open>rpm_suspend\<close> stands for. The counter does not go below 0.
\<close>

definition pm_runtime_get_sync :: "gmax4002 \<Rightarrow> int \<times> gmax4002" where
  "pm_runtime_get_sync s =
     (let s1 = s\<lparr>usage_count := usage_count s + 1\<rparr>
      in if rpm_active s1 then (1, s1)
         else (case gmax4002_power_on s1 of
                 (ret, s2) \<Rightarrow>
                   if ret \<noteq> 0 then (ret, s2) else (0, s2\<lparr>rpm_active := True\<rparr>)))"

definition pm_runtime_get_if_active :: "gmax4002 \<Rightarrow> int \<times> gmax4002" where
  "pm_runtime_get_if_active s =
     (if rpm_active s then (1, s\<lparr>usage_count := usage_count s + 1\<rparr>) else (0, s))"

definition pm_runtime_put_noidle :: "gmax4002 \<Rightarrow> gmax4002" where
  "pm_runtime_put_noidle s = s\<lparr>usage_count := usage_count s - 1\<rparr>"

definition pm_runtime_put :: "gmax4002 \<Rightarrow> gmax4002" where
  "pm_runtime_put s = s\<lparr>usage_count := usage_count s - 1\<rparr>"

definition pm_runtime_put_autosuspend :: "gmax4002 \<Rightarrow> gmax4002" where
  "pm_runtime_put_autosuspend s = s\<lparr>usage_count := usage_count s - 1\<rparr>"

definition rpm_suspend :: "gmax4002 \<Rightarrow> gmax4002" where
  "rpm_suspend s =
     (if rpm_active s \<and> usage_count s = 0
      then (snd (gmax4002_power_off s))\<lparr>rpm_active := False\<rparr>
      else s)"

section \<open>Controls\<close>

text \<open>
  \<^verbatim>\<open>gmax4002_set_ctrl\<close> reads two fields of the control it is given, the identifier and
  the new value, which are the arguments here. The value is a signed 32-bit integer that
  the bus helper receives as a 64-bit word. The \<^verbatim>\<open>V4L2_CID_EXPOSURE\<close> case of the switch
  has no \<^verbatim>\<open>break\<close>, so it runs the statements of the \<^verbatim>\<open>V4L2_CID_ANALOGUE_GAIN\<close> case.
\<close>

definition gmax4002_set_ctrl :: "nat \<Rightarrow> int \<Rightarrow> gmax4002 \<Rightarrow> int \<times> gmax4002" where
  "gmax4002_set_ctrl cid v s0 =
     (case pm_runtime_get_if_active s0 of
        (active, s) \<Rightarrow>
          if active = 0 then (0, s)
          else (case
                 (if cid = V4L2_CID_EXPOSURE \<or> cid = V4L2_CID_ANALOGUE_GAIN then
                    (case cci_write GMAX4002_REG_ANALOG_GAIN (word_of_int v) None s of
                       (ret, err, s') \<Rightarrow> (ret, s'))
                  else if cid = V4L2_CID_VBLANK then (0, s)
                  else if cid = V4L2_CID_HBLANK then (0, s)
                  else if cid = V4L2_CID_VFLIP then
                    (case cci_write GMAX4002_REG_FLIP_V (word_of_int v) None s of
                       (ret, err, s') \<Rightarrow> (ret, s'))
                  else if cid = V4L2_CID_HFLIP then
                    (case cci_write GMAX4002_REG_FLIP_H (word_of_int v) None s of
                       (ret, err, s') \<Rightarrow> (ret, s'))
                  else if cid = V4L2_CID_BRIGHTNESS then (0, s)
                  else (0, s))
               of (ret, s') \<Rightarrow> (ret, pm_runtime_put s')))"

subsection \<open>The control framework\<close>

text \<open>
  Creation of a standard control and of an integer menu control: the current value starts
  as the default. The framework itself marks the pixel-rate control read-only. The
  handler keeps its controls in the order of creation.
\<close>

definition v4l2_ctrl_new_std :: "nat \<Rightarrow> int \<Rightarrow> int \<Rightarrow> nat \<Rightarrow> int \<Rightarrow> v4l2_ctrl" where
  "v4l2_ctrl_new_std cid mn mx st def =
     \<lparr>ctrl_id = cid, minimum = mn, maximum = mx, step = st, default_value = def,
      val = def, qmenu_int = [], read_only = (cid = V4L2_CID_PIXEL_RATE), grabbed = False\<rparr>"

definition v4l2_ctrl_new_int_menu :: "nat \<Rightarrow> nat \<Rightarrow> nat \<Rightarrow> int list \<Rightarrow> v4l2_ctrl" where
  "v4l2_ctrl_new_int_menu cid mx def qmenu =
     \<lparr>ctrl_id = cid, minimum = 0, maximum = int mx, step = 0, default_value = int def,
      val = int def, qmenu_int = qmenu, read_only = False, grabbed = False\<rparr>"

definition v4l2_ctrl_grab :: "v4l2_ctrl \<Rightarrow> bool \<Rightarrow> v4l2_ctrl" where
  "v4l2_ctrl_grab ctrl g = ctrl\<lparr>grabbed := g\<rparr>"

text \<open>
  \<^verbatim>\<open>gmax4002_init_controls\<close>. The three arguments are what the framework reports back:
  the error accumulated by the handler while the controls were created, and the results
  of parsing and of registering the firmware properties. On the error paths the handler
  is freed and the state is returned as it was.
\<close>

definition gmax4002_init_controls ::
  "int \<Rightarrow> int \<Rightarrow> int \<Rightarrow> gmax4002 \<Rightarrow> int \<times> gmax4002" where
  "gmax4002_init_controls hdl_error parse_ret props_ret s =
     (let s1 = s\<lparr>pixel_rate :=
                   v4l2_ctrl_new_std V4L2_CID_PIXEL_RATE 1 GMAX4002_PIXEL_RATE 1 1\<rparr>;
          s2 = s1\<lparr>link_freq :=
                   (v4l2_ctrl_new_int_menu V4L2_CID_LINK_FREQ 0 0 gmax4002_link_freq_menu)
                     \<lparr>read_only := True\<rparr>\<rparr>;
          s3 = s2\<lparr>vblank := v4l2_ctrl_new_std V4L2_CID_VBLANK 0 0xFFFFF 1 0\<rparr>;
          s4 = s3\<lparr>hblank := v4l2_ctrl_new_std V4L2_CID_HBLANK 0 0xFFFF 1 0\<rparr>;
          s5 = s4\<lparr>exposure :=
                   v4l2_ctrl_new_std V4L2_CID_EXPOSURE GMAX4002_EXPOSURE_MIN
                     GMAX4002_EXPOSURE_MAX GMAX4002_EXPOSURE_STEP GMAX4002_EXPOSURE_DEFAULT\<rparr>;
          s6 = s5\<lparr>gain :=
                   v4l2_ctrl_new_std V4L2_CID_ANALOGUE_GAIN GMAX4002_ANA_GAIN_MIN
                     GMAX4002_ANA_GAIN_MAX GMAX4002_ANA_GAIN_STEP GMAX4002_ANA_GAIN_DEFAULT\<rparr>;
          s7 = s6\<lparr>vflip := v4l2_ctrl_new_std V4L2_CID_VFLIP 0 1 1 0\<rparr>;
          s8 = s7\<lparr>hflip := v4l2_ctrl_new_std V4L2_CID_HFLIP 0 1 1 0\<rparr>
      in if hdl_error \<noteq> 0 then (hdl_error, s)
         else if parse_ret \<noteq> 0 then (parse_ret, s)
         else if props_ret \<noteq> 0 then (props_ret, s)
         else (0, s8))"

text \<open>What a consumer of the two read-only controls is told.\<close>

definition reported_pixel_rate :: "gmax4002 \<Rightarrow> int" where
  "reported_pixel_rate s = val (pixel_rate s)"

definition reported_link_freq :: "gmax4002 \<Rightarrow> int" where
  "reported_link_freq s = qmenu_int (link_freq s) ! nat (val (link_freq s))"

text \<open>
  The setup pass of the framework: every control of the handler that is not read-only is
  handed to the driver with its current value, in the order of creation, and the pass
  stops at the first error.
\<close>

fun ctrl_setup_loop :: "v4l2_ctrl list \<Rightarrow> gmax4002 \<Rightarrow> int \<times> gmax4002" where
  "ctrl_setup_loop [] s = (0, s)"
| "ctrl_setup_loop (c # cs) s =
     (if read_only c then ctrl_setup_loop cs s
      else (case gmax4002_set_ctrl (ctrl_id c) (val c) s of
              (ret, s') \<Rightarrow> if ret \<noteq> 0 then (ret, s') else ctrl_setup_loop cs s'))"

definition v4l2_ctrl_handler_setup :: "gmax4002 \<Rightarrow> int \<times> gmax4002" where
  "v4l2_ctrl_handler_setup s =
     ctrl_setup_loop
       [pixel_rate s, link_freq s, vblank s, hblank s, exposure s, gain s, vflip s, hflip s] s"

text \<open>
  Modelled from the spec: the entry of the control dispatcher through which a user sets a
  control, which the kernel's control framework provides and the repository does not
  contain. A flip control whose lock flag is set is refused with \<open>Locked\<close> (the
  kernel's \<^verbatim>\<open>EBUSY\<close>) before the driver is called; every other request goes to
  \<^verbatim>\<open>gmax4002_set_ctrl\<close>.
\<close>

definition set_control :: "nat \<Rightarrow> int \<Rightarrow> gmax4002 \<Rightarrow> int \<times> gmax4002" where
  "set_control cid v s =
     (if cid = V4L2_CID_VFLIP \<and> grabbed (vflip s) then (- EBUSY, s)
      else if cid = V4L2_CID_HFLIP \<and> grabbed (hflip s) then (- EBUSY, s)
      else gmax4002_set_ctrl cid v s)"

section \<open>Streaming\<close>

text \<open>
  The middle of \<^verbatim>\<open>gmax4002_enable_streams\<close>, from the first settle delay to the
  stream-enable bit. Every bus helper here is given the address of the local \<^verbatim>\<open>ret\<close>,
  which is 0 on entry; the result is the final content of that variable.
\<close>

definition enable_streams_sequence :: "int \<Rightarrow> gmax4002 \<Rightarrow> int option \<times> gmax4002" where
  "enable_streams_sequence ret s0 =
     (let s = usleep_range 10000 12000 s0;
          (r1, err, s) = cci_update_bits (CCI_REG8 0x2E00) (BIT 0) (BIT 0) (Some ret) s;
          (r2, err, s) = cci_write (CCI_REG8 0x3301) 0x01 err s;
          s = usleep_range 100000 101000 s;
          (r3, err, s) = cci_update_bits (CCI_REG8 0x3024) (BIT 5) 0 err s;
          (r4, err, s) = cci_update_bits (CCI_REG8 0x3023) (GENMASK 7 4)
                           (FIELD_PREP (GENMASK 7 4) 0xF) err s;
          (r5, err, s) = cci_update_bits (CCI_REG8 0x3023) (BIT 0) (BIT 0) err s;
          (r6, err, s) = cci_update_bits (CCI_REG8 0x3023) (GENMASK 2 1)
                           (FIELD_PREP (GENMASK 2 1) 0x3) err s;
          (r7, err, s) = cci_update_bits (CCI_REG8 0x3024) (BIT 5) (BIT 5) err s;
          (r8, err, s) = cci_update_bits (CCI_REG8 0x3023) (BIT 2) 0 err s;
          (r9, err, s) = cci_update_bits (CCI_REG8 0x2E00) (BIT 1) (BIT 1) err s
      in (err, s))"

text \<open>
  \<^verbatim>\<open>gmax4002_enable_streams\<close>. The result of the setup pass is assigned to \<^verbatim>\<open>ret\<close>,
  which replaces whatever the sequence above left there.
\<close>

definition gmax4002_enable_streams :: "gmax4002 \<Rightarrow> int \<times> gmax4002" where
  "gmax4002_enable_streams s0 =
     (case pm_runtime_get_sync s0 of
        (ret, s1) \<Rightarrow>
          if ret < 0 then (ret, pm_runtime_put_noidle s1)
          else (case cci_multi_reg_write mode_common_regs None s1 of
                  (ret, err, s2) \<Rightarrow>
                    if ret \<noteq> 0 then (ret, pm_runtime_put_autosuspend s2)
                    else (case enable_streams_sequence ret s2 of
                            (err, s3) \<Rightarrow>
                              (case v4l2_ctrl_handler_setup s3 of
                                 (ret, s4) \<Rightarrow>
                                   if ret \<noteq> 0 then (ret, pm_runtime_put_autosuspend s4)
                                   else
                                     (let s5 = usleep_range GMAX4002_STREAM_DELAY_US
                                                 (GMAX4002_STREAM_DELAY_US
                                                    + GMAX4002_STREAM_DELAY_RANGE_US) s4;
                                          s6 = s5\<lparr>vflip := v4l2_ctrl_grab (vflip s5) True\<rparr>;
                                          s7 = s6\<lparr>hflip := v4l2_ctrl_grab (hflip s6) True\<rparr>
                                      in (0, s7))))))"

text \<open>
  \<^verbatim>\<open>gmax4002_disable_streams\<close> returns a local variable that it never assigns; the first
  argument is the value that variable happens to hold.
\<close>

definition gmax4002_disable_streams :: "int \<Rightarrow> gmax4002 \<Rightarrow> int \<times> gmax4002" where
  "gmax4002_disable_streams ret s =
     (let s1 = s\<lparr>vflip := v4l2_ctrl_grab (vflip s) False\<rparr>;
          s2 = s1\<lparr>hflip := v4l2_ctrl_grab (hflip s1) False\<rparr>
      in (ret, pm_runtime_put_autosuspend s2))"

section \<open>Sample sessions\<close>

text \<open>
  A session after a successful attach: controls created, nothing on the trace yet, the
  registers cleared. The arguments are the fault oracle and whether the device is still
  powered.
\<close>

definition zeroed_ctrl :: v4l2_ctrl where
  "zeroed_ctrl =
     \<lparr>ctrl_id = 0, minimum = 0, maximum = 0, step = 0, default_value = 0, val = 0,
      qmenu_int = [], read_only = False, grabbed = False\<rparr>"

definition attached :: "(nat \<Rightarrow> nat) \<Rightarrow> bool \<Rightarrow> gmax4002" where
  "attached f powered =
     snd (gmax4002_init_controls 0 0 0
       \<lparr>trace = [], fault = f, regmap = (\<lambda>a. 0), xclk_rate = 24000000,
        rpm_active = powered, usage_count = 0,
        pixel_rate = zeroed_ctrl, link_freq = zeroed_ctrl, exposure = zeroed_ctrl,
        gain = zeroed_ctrl, vflip = zeroed_ctrl, hflip = zeroed_ctrl,
        vblank = zeroed_ctrl, hblank = zeroed_ctrl, streaming = False\<rparr>)"

definition no_fault :: "nat \<Rightarrow> nat" where
  "no_fault n = 0"

definition fault_at :: "nat \<Rightarrow> nat \<Rightarrow> nat \<Rightarrow> nat" where
  "fault_at k e n = (if n = k then e else 0)"

section \<open>Vocabulary for the properties\<close>

text \<open>
  The trace that a run of successful 8-bit writes leaves, the register file after it, and
  the relation between two sessions that differ at most in the trace and the register
  file, which is all a bus operation may change.
\<close>

definition written :: "(cci_reg \<times> 64 word) list \<Rightarrow> hw_event list" where
  "written regs = map (\<lambda>(reg, v). RegWrite (CCI_REG_ADDR reg) (ucast v) 0) regs"

definition stored :: "(cci_reg \<times> 64 word) list \<Rightarrow> (nat \<Rightarrow> 8 word) \<Rightarrow> (nat \<Rightarrow> 8 word)" where
  "stored regs m = fold (\<lambda>(reg, v) m. m(CCI_REG_ADDR reg := ucast v)) regs m"

definition bus_only :: "gmax4002 \<Rightarrow> gmax4002 \<Rightarrow> bool" where
  "bus_only s s' \<longleftrightarrow> s' = s\<lparr>trace := trace s', regmap := regmap s'\<rparr>"

section \<open>Format resolution\<close>

lemma codes_first_member: "codes ! 0 \<in> set codes"
  by (simp add: codes_def)

text \<open>The scan from index \<open>i\<close> finds the request exactly when it occurs at or after \<open>i\<close>.\<close>

lemma get_format_code_loop_scan:
  "i \<le> length codes \<Longrightarrow>
   get_format_code_loop i code = (if code \<in> set (drop i codes) then code else codes ! 0)"
proof (induction i code rule: get_format_code_loop.induct)
  case (1 i code)
  show ?case
  proof (cases "i < length codes")
    case False
    with 1 show ?thesis by (subst get_format_code_loop.simps) simp
  next
    case True
    then have d: "drop i codes = codes ! i # drop (Suc i) codes"
      by (simp add: Cons_nth_drop_Suc)
    show ?thesis
    proof (cases "codes ! i = code")
      case True
      with \<open>i < length codes\<close> d show ?thesis
        by (subst get_format_code_loop.simps) simp
    next
      case False
      with \<open>i < length codes\<close>
      have "get_format_code_loop i code = get_format_code_loop (i + 1) code"
        by (subst get_format_code_loop.simps) simp
      also have "\<dots> = (if code \<in> set (drop (i + 1) codes) then code else codes ! 0)"
        using 1(1) [OF \<open>i < length codes\<close> False] \<open>i < length codes\<close> by simp
      finally show ?thesis using d False by auto
    qed
  qed
qed

lemma get_format_code_eq:
  "gmax4002_get_format_code code = (if code \<in> set codes then code else codes ! 0)"
  using get_format_code_loop_scan [of 0 code] by (simp add: gmax4002_get_format_code_def)

text \<open>
  Claim C3. The format resolver returns a code of the allow-list unchanged and returns
  the first entry of the allow-list for every other code; so its result is always in the
  allow-list, and resolving twice is the same as resolving once.
\<close>

theorem resolve_format_allow_list:
  "(code \<in> set codes \<longrightarrow> gmax4002_get_format_code code = code)
   \<and> (code \<notin> set codes \<longrightarrow> gmax4002_get_format_code code = codes ! 0)
   \<and> gmax4002_get_format_code code \<in> set codes
   \<and> gmax4002_get_format_code (gmax4002_get_format_code code) = gmax4002_get_format_code code"
  using codes_first_member by (simp add: get_format_code_eq)

theorem resolve_format_allow_list_witness:
  "MEDIA_BUS_FMT_SGBRG10_1X10 \<in> set codes
   \<and> gmax4002_get_format_code MEDIA_BUS_FMT_SGBRG10_1X10 = MEDIA_BUS_FMT_SGBRG10_1X10
   \<and> MEDIA_BUS_FMT_Y10_1X10 \<notin> set codes
   \<and> gmax4002_get_format_code MEDIA_BUS_FMT_Y10_1X10 = MEDIA_BUS_FMT_SRGGB10_1X10"
  using resolve_format_allow_list [of MEDIA_BUS_FMT_SGBRG10_1X10]
        resolve_format_allow_list [of MEDIA_BUS_FMT_Y10_1X10]
  by (simp add: codes_def MEDIA_BUS_FMT_SGBRG10_1X10_def MEDIA_BUS_FMT_Y10_1X10_def
      MEDIA_BUS_FMT_SRGGB10_1X10_def MEDIA_BUS_FMT_SGRBG10_1X10_def
      MEDIA_BUS_FMT_SBGGR10_1X10_def)

text \<open>
  Claim C10. Enumeration of media-bus codes offers one code only: index 0 yields the
  first entry of the allow-list, the 10-bit RGGB code, and every index from 1 on is
  refused as out of range, although the allow-list has four entries; the number of
  entries offered is the table size divided by 4.
\<close>

theorem enum_mbus_code_single:
  "gmax4002_enum_mbus_code \<lparr>mce_index = 0, mce_code = c\<rparr>
     = (0, \<lparr>mce_index = 0, mce_code = MEDIA_BUS_FMT_SRGGB10_1X10\<rparr>)
   \<and> codes ! 0 = MEDIA_BUS_FMT_SRGGB10_1X10
   \<and> (\<forall>i. 1 \<le> i \<longrightarrow>
         gmax4002_enum_mbus_code \<lparr>mce_index = i, mce_code = c\<rparr>
           = (- EINVAL, \<lparr>mce_index = i, mce_code = c\<rparr>))
   \<and> length codes = 4 \<and> length codes div 4 = 1"
  by (simp add: gmax4002_enum_mbus_code_def get_format_code_eq codes_def)

theorem enum_mbus_code_single_witness:
  "(1::nat) \<le> 3
   \<and> gmax4002_enum_mbus_code \<lparr>mce_index = 3, mce_code = 0\<rparr>
        = (- 22, \<lparr>mce_index = 3, mce_code = 0\<rparr>)
   \<and> gmax4002_enum_mbus_code \<lparr>mce_index = 0, mce_code = 0\<rparr>
        = (0, \<lparr>mce_index = 0, mce_code = 0x300f\<rparr>)"
  using enum_mbus_code_single [of 0]
  by (simp add: EINVAL_def MEDIA_BUS_FMT_SRGGB10_1X10_def)

section \<open>Selection rectangles\<close>

text \<open>
  Claim C6. Whatever the state of the session, the selection query answers the native
  size with the rectangle at (0, 0) of 2048 by 1218, the crop bounds and the default crop
  with the rectangle at left 0, top 18 of 2048 by 1200, the current crop with the crop
  stored in the state, and any other target with the error for an invalid argument.
\<close>

theorem get_selection_targets:
  "gmax4002_get_selection st \<lparr>sel_target = V4L2_SEL_TGT_NATIVE_SIZE, sel_r = r0\<rparr>
     = (0, \<lparr>sel_target = V4L2_SEL_TGT_NATIVE_SIZE,
            sel_r = \<lparr>rect_left = 0, rect_top = 0, rect_width = 2048, rect_height = 1218\<rparr>\<rparr>)
   \<and> gmax4002_get_selection st \<lparr>sel_target = V4L2_SEL_TGT_CROP_BOUNDS, sel_r = r0\<rparr>
     = (0, \<lparr>sel_target = V4L2_SEL_TGT_CROP_BOUNDS,
            sel_r = \<lparr>rect_left = 0, rect_top = 18, rect_width = 2048, rect_height = 1200\<rparr>\<rparr>)
   \<and> gmax4002_get_selection st \<lparr>sel_target = V4L2_SEL_TGT_CROP_DEFAULT, sel_r = r0\<rparr>
     = (0, \<lparr>sel_target = V4L2_SEL_TGT_CROP_DEFAULT,
            sel_r = \<lparr>rect_left = 0, rect_top = 18, rect_width = 2048, rect_height = 1200\<rparr>\<rparr>)
   \<and> gmax4002_get_selection st \<lparr>sel_target = V4L2_SEL_TGT_CROP, sel_r = r0\<rparr>
     = (0, \<lparr>sel_target = V4L2_SEL_TGT_CROP, sel_r = pad_crop st\<rparr>)
   \<and> (t \<notin> {V4L2_SEL_TGT_NATIVE_SIZE, V4L2_SEL_TGT_CROP_BOUNDS, V4L2_SEL_TGT_CROP_DEFAULT,
             V4L2_SEL_TGT_CROP} \<longrightarrow>
        gmax4002_get_selection st \<lparr>sel_target = t, sel_r = r0\<rparr>
          = (- EINVAL, \<lparr>sel_target = t, sel_r = r0\<rparr>))"
  by (simp add: gmax4002_get_selection_def V4L2_SEL_TGT_NATIVE_SIZE_def
      V4L2_SEL_TGT_CROP_BOUNDS_def V4L2_SEL_TGT_CROP_DEFAULT_def V4L2_SEL_TGT_CROP_def
      GMAX4002_NATIVE_WIDTH_def GMAX4002_NATIVE_HEIGHT_def GMAX4002_PIXEL_ARRAY_TOP_def
      GMAX4002_PIXEL_ARRAY_LEFT_def GMAX4002_PIXEL_ARRAY_WIDTH_def
      GMAX4002_PIXEL_ARRAY_HEIGHT_def)

theorem get_selection_targets_witness:
  "(0x0100::nat) \<notin> {V4L2_SEL_TGT_NATIVE_SIZE, V4L2_SEL_TGT_CROP_BOUNDS,
                      V4L2_SEL_TGT_CROP_DEFAULT, V4L2_SEL_TGT_CROP}
   \<and> gmax4002_get_selection
        \<lparr>pad_format = \<lparr>fmt_width = 2048, fmt_height = 1218, fmt_code = 0x300f\<rparr>,
         pad_crop = \<lparr>rect_left = 0, rect_top = 18, rect_width = 2048, rect_height = 1200\<rparr>\<rparr>
        \<lparr>sel_target = 0x0100,
         sel_r = \<lparr>rect_left = 1, rect_top = 2, rect_width = 3, rect_height = 4\<rparr>\<rparr>
      = (- 22, \<lparr>sel_target = 0x0100,
                sel_r = \<lparr>rect_left = 1, rect_top = 2, rect_width = 3, rect_height = 4\<rparr>\<rparr>)"
  using get_selection_targets
    [of "\<lparr>pad_format = \<lparr>fmt_width = 2048, fmt_height = 1218, fmt_code = 0x300f\<rparr>,
          pad_crop = \<lparr>rect_left = 0, rect_top = 18, rect_width = 2048, rect_height = 1200\<rparr>\<rparr>"
        "\<lparr>rect_left = 1, rect_top = 2, rect_width = 3, rect_height = 4\<rparr>" "0x0100"]
  by (simp add: EINVAL_def V4L2_SEL_TGT_NATIVE_SIZE_def V4L2_SEL_TGT_CROP_BOUNDS_def
      V4L2_SEL_TGT_CROP_DEFAULT_def V4L2_SEL_TGT_CROP_def)

section \<open>Bus helpers\<close>

lemmas ctrl_consts = V4L2_CID_BRIGHTNESS_def V4L2_CID_EXPOSURE_def V4L2_CID_HFLIP_def
  V4L2_CID_VFLIP_def V4L2_CID_VBLANK_def V4L2_CID_HBLANK_def V4L2_CID_ANALOGUE_GAIN_def
  V4L2_CID_LINK_FREQ_def V4L2_CID_PIXEL_RATE_def

lemmas attached_defs = attached_def gmax4002_init_controls_def v4l2_ctrl_new_std_def
  v4l2_ctrl_new_int_menu_def zeroed_ctrl_def Let_def ctrl_consts
  GMAX4002_EXPOSURE_MIN_def GMAX4002_EXPOSURE_MAX_def GMAX4002_EXPOSURE_STEP_def
  GMAX4002_EXPOSURE_DEFAULT_def GMAX4002_ANA_GAIN_MIN_def GMAX4002_ANA_GAIN_MAX_def
  GMAX4002_ANA_GAIN_STEP_def GMAX4002_ANA_GAIN_DEFAULT_def GMAX4002_PIXEL_RATE_def
  GMAX4002_LINK_FREQ_def gmax4002_link_freq_menu_def

lemmas bus_defs = cci_update_bits_def regmap_bulk_read_def regmap_bulk_write_def
  err_set_def err_store_def hw_ret_def usleep_range_def

lemmas set_ctrl_defs = v4l2_ctrl_handler_setup_def gmax4002_set_ctrl_def
  pm_runtime_get_if_active_def pm_runtime_put_def GMAX4002_REG_ANALOG_GAIN_def
  GMAX4002_REG_FLIP_V_def GMAX4002_REG_FLIP_H_def

text \<open>A write without an error pointer always goes to the bus.\<close>

lemma cci_write_None:
  "cci_write reg v None s =
     (hw_ret s, None,
      s\<lparr>trace := trace s @ [RegWrite (CCI_REG_ADDR reg) (ucast v) (hw_ret s)],
        regmap := (if hw_ret s = 0 then (regmap s)(CCI_REG_ADDR reg := ucast v)
                   else regmap s)\<rparr>)"
  by (cases reg) (simp add: err_set_def err_store_def regmap_bulk_write_def Let_def)

lemma length_written [simp]: "length (written regs) = length regs"
  by (simp add: written_def)

lemma length_mode_common_regs: "length mode_common_regs = 470"
  by (simp add: mode_common_regs_def)

text \<open>
  A sequence of writes whose first failure is at index \<open>k\<close>: the \<open>k\<close> writes before it
  are on the trace as successes, the failing one follows, and nothing comes after.
\<close>

lemma multi_reg_write_fails_at:
  "k < length regs \<Longrightarrow> (\<forall>j<k. fault s (length (trace s) + j) = 0) \<Longrightarrow>
   fault s (length (trace s) + k) \<noteq> 0 \<Longrightarrow>
   cci_multi_reg_write regs None s =
     (- int (fault s (length (trace s) + k)), None,
      s\<lparr>trace := trace s @ written (take k regs)
           @ [RegWrite (CCI_REG_ADDR (fst (regs ! k))) (ucast (snd (regs ! k)))
                (- int (fault s (length (trace s) + k)))],
        regmap := stored (take k regs) (regmap s)\<rparr>)"
proof (induction regs arbitrary: s k)
  case Nil
  then show ?case by simp
next
  case (Cons rv regs)
  obtain reg v where rv: "rv = (reg, v)" by (cases rv)
  show ?case
  proof (cases k)
    case 0
    with Cons.prems show ?thesis
      by (simp add: rv cci_write_None hw_ret_def written_def stored_def)
  next
    case (Suc k')
    let ?s1 = "s\<lparr>trace := trace s @ [RegWrite (CCI_REG_ADDR reg) (ucast v) 0],
                 regmap := (regmap s)(CCI_REG_ADDR reg := ucast v)\<rparr>"
    from Cons.prems Suc have f0: "fault s (length (trace s)) = 0"
      by (metis add.right_neutral zero_less_Suc)
    have a: "k' < length regs" using Cons.prems Suc by simp
    have b: "\<forall>j<k'. fault ?s1 (length (trace ?s1) + j) = 0"
    proof (intro allI impI)
      fix j assume "j < k'"
      then have "Suc j < k" using Suc by simp
      with Cons.prems(2) have "fault s (length (trace s) + Suc j) = 0" by blast
      then show "fault ?s1 (length (trace ?s1) + j) = 0" by simp
    qed
    have c: "fault ?s1 (length (trace ?s1) + k') \<noteq> 0"
      using Cons.prems(3) Suc by simp
    show ?thesis
      using Cons.IH [OF a b c] f0 Suc
      by (simp add: rv cci_write_None hw_ret_def written_def stored_def fun_upd_def)
  qed
qed

lemma multi_reg_write_succeeds:
  "(\<forall>j<length regs. fault s (length (trace s) + j) = 0) \<Longrightarrow>
   cci_multi_reg_write regs None s =
     (0, None, s\<lparr>trace := trace s @ written regs, regmap := stored regs (regmap s)\<rparr>)"
proof (induction regs arbitrary: s)
  case Nil
  show ?case by (simp add: written_def stored_def)
next
  case (Cons rv regs)
  obtain reg v where rv: "rv = (reg, v)" by (cases rv)
  let ?s1 = "s\<lparr>trace := trace s @ [RegWrite (CCI_REG_ADDR reg) (ucast v) 0],
               regmap := (regmap s)(CCI_REG_ADDR reg := ucast v)\<rparr>"
  from Cons.prems have f0: "fault s (length (trace s)) = 0"
    by (metis add.right_neutral length_greater_0_conv list.distinct(1))
  have b: "\<forall>j<length regs. fault ?s1 (length (trace ?s1) + j) = 0"
  proof (intro allI impI)
    fix j assume "j < length regs"
    then have "Suc j < length (rv # regs)" by simp
    with Cons.prems have "fault s (length (trace s) + Suc j) = 0" by blast
    then show "fault ?s1 (length (trace ?s1) + j) = 0" by simp
  qed
  show ?case
    using Cons.IH [OF b] f0
    by (simp add: rv cci_write_None hw_ret_def written_def stored_def fun_upd_def)
qed

subsection \<open>What a bus operation leaves alone\<close>

lemma bus_only_refl: "bus_only s s"
  by (simp add: bus_only_def)

lemma bus_only_fields:
  "bus_only s s' \<Longrightarrow>
     fault s' = fault s \<and> xclk_rate s' = xclk_rate s \<and> rpm_active s' = rpm_active s
     \<and> usage_count s' = usage_count s \<and> pixel_rate s' = pixel_rate s
     \<and> link_freq s' = link_freq s \<and> exposure s' = exposure s \<and> gain s' = gain s
     \<and> vflip s' = vflip s \<and> hflip s' = hflip s \<and> vblank s' = vblank s
     \<and> hblank s' = hblank s \<and> streaming s' = streaming s"
  unfolding bus_only_def
  by (erule ssubst) simp

lemma bus_only_usleep: "bus_only s s1 \<Longrightarrow> bus_only s (usleep_range lo hi s1)"
  unfolding bus_only_def usleep_range_def
  by (erule ssubst) simp

lemma bus_only_cci_write:
  "bus_only s s1 \<Longrightarrow> bus_only s (snd (snd (cci_write reg v err s1)))"
  unfolding bus_only_def
  by (erule ssubst, cases reg) (simp add: regmap_bulk_write_def Let_def)

lemma bus_only_cci_read:
  "bus_only s s1 \<Longrightarrow> bus_only s (snd (snd (snd (cci_read reg err s1))))"
  unfolding bus_only_def
  by (erule ssubst, cases reg) (simp add: regmap_bulk_read_def Let_def)

lemma bus_only_cci_update_bits:
  "bus_only s s1 \<Longrightarrow> bus_only s (snd (snd (cci_update_bits reg m v err s1)))"
  using bus_only_cci_write [OF bus_only_cci_read [of s s1 reg err]]
        bus_only_cci_read [of s s1 reg err]
  by (simp add: cci_update_bits_def case_prod_beta)

lemma bus_only_multi_reg_write:
  "bus_only s s1 \<Longrightarrow> bus_only s (snd (snd (cci_multi_reg_write regs err s1)))"
proof (induction regs arbitrary: s1 err)
  case Nil
  then show ?case by simp
next
  case (Cons rv regs)
  obtain reg v where rv: "rv = (reg, v)" by (cases rv)
  from bus_only_cci_write [OF Cons.prems, of reg v err] Cons.IH
  show ?case by (simp add: rv case_prod_beta)
qed

lemma bus_only_sequence: "bus_only s (snd (enable_streams_sequence r s))"
  unfolding enable_streams_sequence_def Let_def case_prod_beta snd_conv
  by (intro bus_only_cci_update_bits bus_only_cci_write bus_only_usleep bus_only_refl)

text \<open>
  Setting a control takes a reference and gives it back, so it too changes the trace
  and the register file only.
\<close>

lemma bus_only_set_ctrl:
  "bus_only s s1 \<Longrightarrow> bus_only s (snd (gmax4002_set_ctrl cid v s1))"
  unfolding bus_only_def
  by (erule ssubst)
     (simp add: gmax4002_set_ctrl_def pm_runtime_get_if_active_def pm_runtime_put_def
        cci_write_None)

lemma bus_only_setup_loop:
  "bus_only s s1 \<Longrightarrow> bus_only s (snd (ctrl_setup_loop cs s1))"
proof (induction cs arbitrary: s1)
  case Nil
  then show ?case by simp
next
  case (Cons c cs)
  from bus_only_set_ctrl [OF Cons.prems, of "ctrl_id c" "val c"] Cons.IH Cons.prems
  show ?case by (simp add: case_prod_beta)
qed

lemma bus_only_handler_setup: "bus_only s (snd (v4l2_ctrl_handler_setup s))"
  unfolding v4l2_ctrl_handler_setup_def by (rule bus_only_setup_loop [OF bus_only_refl])

section \<open>Power sequencing\<close>

lemma power_on_cases:
  "gmax4002_power_on s =
     (if fault s (length (trace s)) \<noteq> 0 then
        (- int (fault s (length (trace s))),
         s\<lparr>trace := trace s @ [RegulatorBulkEnable (- int (fault s (length (trace s))))]\<rparr>)
      else if fault s (Suc (length (trace s))) \<noteq> 0 then
        (- int (fault s (Suc (length (trace s)))),
         s\<lparr>trace := trace s @ [RegulatorBulkEnable 0,
                                ClkPrepareEnable (- int (fault s (Suc (length (trace s))))),
                                RegulatorBulkDisable]\<rparr>)
      else
        (0, s\<lparr>trace := trace s @ [RegulatorBulkEnable 0, ClkPrepareEnable 0,
                                   GpiodSetValue 1, Usleep 10000 11000]\<rparr>))"
  by (simp add: gmax4002_power_on_def regulator_bulk_enable_def clk_prepare_enable_def
      regulator_bulk_disable_def usleep_range_def gpiod_set_value_cansleep_def hw_ret_def
      Let_def GMAX4002_XCLR_MIN_DELAY_US_def GMAX4002_XCLR_DELAY_RANGE_US_def)

text \<open>
  Claim C7. Powering on undoes what it has done when a later step fails: when enabling
  the rails fails, the error is returned and neither the clock nor the reset line is
  touched; when enabling the clock fails, the rails are disabled again and the error is
  returned; the reset line is released and the settle delay is taken only after rails
  and clock both succeeded.
\<close>

theorem power_on_rollback:
  "(fault s (length (trace s)) \<noteq> 0 \<longrightarrow>
      gmax4002_power_on s =
        (- int (fault s (length (trace s))),
         s\<lparr>trace := trace s @ [RegulatorBulkEnable (- int (fault s (length (trace s))))]\<rparr>))
   \<and> (fault s (length (trace s)) = 0 \<and> fault s (Suc (length (trace s))) \<noteq> 0 \<longrightarrow>
      gmax4002_power_on s =
        (- int (fault s (Suc (length (trace s)))),
         s\<lparr>trace := trace s @ [RegulatorBulkEnable 0,
                                ClkPrepareEnable (- int (fault s (Suc (length (trace s))))),
                                RegulatorBulkDisable]\<rparr>))
   \<and> (fault s (length (trace s)) = 0 \<and> fault s (Suc (length (trace s))) = 0 \<longrightarrow>
      gmax4002_power_on s =
        (0, s\<lparr>trace := trace s @ [RegulatorBulkEnable 0, ClkPrepareEnable 0,
                                   GpiodSetValue 1, Usleep 10000 11000]\<rparr>))"
  by (simp add: power_on_cases)

theorem power_on_rollback_witness:
  "fault (attached (fault_at 0 5) False) (length (trace (attached (fault_at 0 5) False))) \<noteq> 0
   \<and> fst (gmax4002_power_on (attached (fault_at 0 5) False)) = - 5
   \<and> trace (snd (gmax4002_power_on (attached (fault_at 0 5) False)))
       = [RegulatorBulkEnable (- 5)]
   \<and> fault (attached (fault_at 1 5) False) (length (trace (attached (fault_at 1 5) False))) = 0
   \<and> fault (attached (fault_at 1 5) False)
        (Suc (length (trace (attached (fault_at 1 5) False)))) \<noteq> 0
   \<and> fst (gmax4002_power_on (attached (fault_at 1 5) False)) = - 5
   \<and> trace (snd (gmax4002_power_on (attached (fault_at 1 5) False)))
       = [RegulatorBulkEnable 0, ClkPrepareEnable (- 5), RegulatorBulkDisable]
   \<and> fault (attached no_fault False) (length (trace (attached no_fault False))) = 0
   \<and> fault (attached no_fault False) (Suc (length (trace (attached no_fault False)))) = 0
   \<and> fst (gmax4002_power_on (attached no_fault False)) = 0
   \<and> trace (snd (gmax4002_power_on (attached no_fault False)))
       = [RegulatorBulkEnable 0, ClkPrepareEnable 0, GpiodSetValue 1, Usleep 10000 11000]"
  using power_on_rollback [of "attached (fault_at 0 5) False"]
        power_on_rollback [of "attached (fault_at 1 5) False"]
        power_on_rollback [of "attached no_fault False"]
  by (simp add: attached_defs fault_at_def no_fault_def)

section \<open>Controls\<close>

text \<open>
  Claim C8. For every control identifier and every value, setting a control while the
  device is not powered writes nothing to the bus, leaves the whole session as it was,
  and returns success.
\<close>

theorem set_ctrl_unpowered_noop:
  "\<not> rpm_active s \<Longrightarrow> gmax4002_set_ctrl cid v s = (0, s)"
  by (simp add: gmax4002_set_ctrl_def pm_runtime_get_if_active_def)

theorem set_ctrl_unpowered_noop_witness:
  "\<not> rpm_active (attached no_fault False)
   \<and> gmax4002_set_ctrl V4L2_CID_ANALOGUE_GAIN 7 (attached no_fault False)
       = (0, attached no_fault False)"
  using set_ctrl_unpowered_noop [of "attached no_fault False" V4L2_CID_ANALOGUE_GAIN 7]
  by (simp add: attached_defs)

text \<open>
  The vblank, hblank and brightness controls are accepted without any effect, in every
  state of the session.
\<close>

lemma set_ctrl_silent_controls:
  "cid \<in> {V4L2_CID_VBLANK, V4L2_CID_HBLANK, V4L2_CID_BRIGHTNESS} \<Longrightarrow>
   gmax4002_set_ctrl cid v s = (0, s)"
  by (auto simp: gmax4002_set_ctrl_def pm_runtime_get_if_active_def pm_runtime_put_def
      ctrl_consts)

text \<open>
  Claim C1. The exposure control is meant to have no hardware effect, but its case of the
  switch runs into the gain case: on a powered session, setting exposure to 1000, the
  only value its range allows, writes the low byte of 1000, which is 0xE8, to the
  analog-gain register 0x2EC9.
\<close>

theorem set_ctrl_exposure_reaches_bus:
  "fst (gmax4002_set_ctrl V4L2_CID_EXPOSURE 1000 (attached no_fault True)) = 0
   \<and> trace (attached no_fault True) = []
   \<and> trace (snd (gmax4002_set_ctrl V4L2_CID_EXPOSURE 1000 (attached no_fault True)))
       = [RegWrite 0x2EC9 0xE8 0]
   \<and> regmap (snd (gmax4002_set_ctrl V4L2_CID_EXPOSURE 1000 (attached no_fault True))) 0x2EC9
       = 0xE8"
  by (simp add: attached_defs set_ctrl_defs cci_write_None hw_ret_def no_fault_def)

text \<open>
  Claim C9. The controls are created without reference to the rate of the external
  clock, and the link frequency reported is 600000000. The pixel-rate control, though,
  is created with minimum 1, maximum 60000000 and default 1, and nothing changes it
  afterwards: the value reported is 1, not 60000000.
\<close>

theorem reported_rates_after_init:
  "reported_pixel_rate (snd (gmax4002_init_controls 0 0 0 (s\<lparr>xclk_rate := r\<rparr>))) = 1
   \<and> maximum (pixel_rate (snd (gmax4002_init_controls 0 0 0 (s\<lparr>xclk_rate := r\<rparr>))))
       = 60000000
   \<and> reported_link_freq (snd (gmax4002_init_controls 0 0 0 (s\<lparr>xclk_rate := r\<rparr>)))
       = 600000000"
  by (simp add: reported_pixel_rate_def reported_link_freq_def gmax4002_init_controls_def
      v4l2_ctrl_new_std_def v4l2_ctrl_new_int_menu_def Let_def GMAX4002_PIXEL_RATE_def
      GMAX4002_LINK_FREQ_def gmax4002_link_freq_menu_def)

section \<open>Streaming\<close>

lemma get_sync_powered:
  "rpm_active s \<Longrightarrow> pm_runtime_get_sync s = (1, s\<lparr>usage_count := usage_count s + 1\<rparr>)"
  by (simp add: pm_runtime_get_sync_def Let_def)

text \<open>Acquiring power changes the trace, the status and the usage counter only.\<close>

lemma get_sync_fields:
  "fault (snd (pm_runtime_get_sync s)) = fault s
   \<and> usage_count (snd (pm_runtime_get_sync s)) = usage_count s + 1
   \<and> vflip (snd (pm_runtime_get_sync s)) = vflip s
   \<and> hflip (snd (pm_runtime_get_sync s)) = hflip s
   \<and> fst (pm_runtime_get_sync s) \<le> 1"
  by (simp add: pm_runtime_get_sync_def power_on_cases Let_def)

lemma get_sync_no_fault:
  "\<forall>n. fault s n = 0 \<Longrightarrow> 0 \<le> fst (pm_runtime_get_sync s)"
  by (simp add: pm_runtime_get_sync_def power_on_cases Let_def)

text \<open>The function, stage by stage, once power is held and the table is written.\<close>

lemma enable_streams_stages:
  "pm_runtime_get_sync s0 = (r, s1) \<Longrightarrow> 0 \<le> r \<Longrightarrow>
   cci_multi_reg_write mode_common_regs None s1 = (0, e, s2) \<Longrightarrow>
   enable_streams_sequence 0 s2 = (e', s3) \<Longrightarrow>
   v4l2_ctrl_handler_setup s3 = (ret, s4) \<Longrightarrow>
   gmax4002_enable_streams s0 =
     (if ret \<noteq> 0 then (ret, s4\<lparr>usage_count := usage_count s4 - 1\<rparr>)
      else (0, s4\<lparr>trace := trace s4 @ [Usleep 25000 26000],
                  vflip := (vflip s4)\<lparr>grabbed := True\<rparr>,
                  hflip := (hflip s4)\<lparr>grabbed := True\<rparr>\<rparr>))"
  by (simp add: gmax4002_enable_streams_def pm_runtime_put_autosuspend_def usleep_range_def
      v4l2_ctrl_grab_def Let_def GMAX4002_STREAM_DELAY_US_def GMAX4002_STREAM_DELAY_RANGE_US_def)

text \<open>
  Claim C5. When power has been acquired and the write at index \<open>k\<close> of the common
  register table is the first to fail, exactly the \<open>k\<close> writes before it are issued and
  succeed, the failing write is the last bus operation (the rest of the table is not
  attempted and nothing is undone), its error is returned, and the session is left idle:
  the reference taken on the power is given back and the flip controls are as before.
\<close>

theorem enable_streams_table_write_failure:
  assumes "0 \<le> fst (pm_runtime_get_sync s)"
    and "k < length mode_common_regs"
    and "\<forall>j<k. fault s (length (trace (snd (pm_runtime_get_sync s))) + j) = 0"
    and "fault s (length (trace (snd (pm_runtime_get_sync s))) + k) \<noteq> 0"
  shows "fst (gmax4002_enable_streams s)
           = - int (fault s (length (trace (snd (pm_runtime_get_sync s))) + k))
     \<and> trace (snd (gmax4002_enable_streams s))
           = trace (snd (pm_runtime_get_sync s)) @ written (take k mode_common_regs)
             @ [RegWrite (CCI_REG_ADDR (fst (mode_common_regs ! k)))
                  (ucast (snd (mode_common_regs ! k)))
                  (- int (fault s (length (trace (snd (pm_runtime_get_sync s))) + k)))]
     \<and> length (written (take k mode_common_regs)) = k
     \<and> regmap (snd (gmax4002_enable_streams s))
           = stored (take k mode_common_regs) (regmap (snd (pm_runtime_get_sync s)))
     \<and> usage_count (snd (gmax4002_enable_streams s)) = usage_count s
     \<and> vflip (snd (gmax4002_enable_streams s)) = vflip s
     \<and> hflip (snd (gmax4002_enable_streams s)) = hflip s"
proof -
  let ?s1 = "snd (pm_runtime_get_sync s)"
  have f: "fault ?s1 = fault s" by (simp add: get_sync_fields)
  have w: "cci_multi_reg_write mode_common_regs None ?s1 =
     (- int (fault ?s1 (length (trace ?s1) + k)), None,
      ?s1\<lparr>trace := trace ?s1 @ written (take k mode_common_regs)
           @ [RegWrite (CCI_REG_ADDR (fst (mode_common_regs ! k)))
                (ucast (snd (mode_common_regs ! k)))
                (- int (fault ?s1 (length (trace ?s1) + k)))],
        regmap := stored (take k mode_common_regs) (regmap ?s1)\<rparr>)"
    using assms(2-4) by (intro multi_reg_write_fails_at) (simp_all add: f)
  have "gmax4002_enable_streams s =
     (- int (fault s (length (trace ?s1) + k)),
      pm_runtime_put_autosuspend
       (?s1\<lparr>trace := trace ?s1 @ written (take k mode_common_regs)
           @ [RegWrite (CCI_REG_ADDR (fst (mode_common_regs ! k)))
                (ucast (snd (mode_common_regs ! k)))
                (- int (fault s (length (trace ?s1) + k)))],
        regmap := stored (take k mode_common_regs) (regmap ?s1)\<rparr>))"
    using assms(1,4) w
    by (simp add: gmax4002_enable_streams_def case_prod_beta f)
  then show ?thesis
    using assms(2) by (simp add: pm_runtime_put_autosuspend_def get_sync_fields)
qed

theorem enable_streams_table_write_failure_witness:
  "0 \<le> fst (pm_runtime_get_sync (attached (fault_at 2 5) True))
   \<and> 2 < length mode_common_regs
   \<and> fault (attached (fault_at 2 5) True)
        (length (trace (snd (pm_runtime_get_sync (attached (fault_at 2 5) True)))) + 0) = 0
   \<and> fault (attached (fault_at 2 5) True)
        (length (trace (snd (pm_runtime_get_sync (attached (fault_at 2 5) True)))) + 1) = 0
   \<and> fault (attached (fault_at 2 5) True)
        (length (trace (snd (pm_runtime_get_sync (attached (fault_at 2 5) True)))) + 2) \<noteq> 0
   \<and> fst (gmax4002_enable_streams (attached (fault_at 2 5) True)) = - 5
   \<and> trace (snd (gmax4002_enable_streams (attached (fault_at 2 5) True)))
       = [RegWrite 0x2E00 0x00 0, RegWrite 0x2E01 0x01 0, RegWrite 0x2E02 0x00 (- 5)]
   \<and> usage_count (snd (gmax4002_enable_streams (attached (fault_at 2 5) True))) = 0"
proof -
  let ?s = "attached (fault_at 2 5) True"
  have a: "rpm_active ?s" by (simp add: attached_defs)
  have g: "pm_runtime_get_sync ?s = (1, ?s\<lparr>usage_count := usage_count ?s + 1\<rparr>)"
    by (rule get_sync_powered [OF a])
  have h1: "0 \<le> fst (pm_runtime_get_sync ?s)" by (simp add: g)
  have h2: "2 < length mode_common_regs" by (simp add: length_mode_common_regs)
  have h3: "\<forall>j<2. fault ?s (length (trace (snd (pm_runtime_get_sync ?s))) + j) = 0"
    by (simp add: g) (simp add: attached_defs fault_at_def)
  have h4: "fault ?s (length (trace (snd (pm_runtime_get_sync ?s))) + 2) \<noteq> 0"
    by (simp add: g) (simp add: attached_defs fault_at_def)
  have t: "take 2 mode_common_regs = [(CCI_REG8 0x2E00, 0x00), (CCI_REG8 0x2E01, 0x01)]"
    by (simp add: mode_common_regs_def)
  have n: "mode_common_regs ! 2 = (CCI_REG8 0x2E02, 0x00)"
    by (simp add: mode_common_regs_def)
  show ?thesis
    using enable_streams_table_write_failure [OF h1 h2 h3 h4] h1 h2 h3 h4
    by (simp add: g t n written_def) (simp add: attached_defs fault_at_def)
qed

subsection \<open>Runs without faults\<close>

lemma set_ctrl_no_fault:
  "\<forall>n. fault s n = 0 \<Longrightarrow> fst (gmax4002_set_ctrl cid v s) = 0"
  by (simp add: gmax4002_set_ctrl_def pm_runtime_get_if_active_def cci_write_None hw_ret_def)

lemma setup_loop_no_fault:
  "\<forall>n. fault s n = 0 \<Longrightarrow> fst (ctrl_setup_loop cs s) = 0"
proof (induction cs arbitrary: s)
  case Nil
  show ?case by simp
next
  case (Cons c cs)
  let ?s' = "snd (gmax4002_set_ctrl (ctrl_id c) (val c) s)"
  have "fault ?s' = fault s"
    using bus_only_fields [OF bus_only_set_ctrl [OF bus_only_refl]] by blast
  with Cons.prems have "\<forall>n. fault ?s' n = 0" by simp
  then have "fst (ctrl_setup_loop cs ?s') = 0" by (rule Cons.IH)
  with Cons.IH [OF Cons.prems] set_ctrl_no_fault [OF Cons.prems, of "ctrl_id c" "val c"]
  show ?case by (simp add: case_prod_beta)
qed

lemma enable_streams_no_fault:
  assumes "\<forall>n. fault s n = 0"
  shows "fst (gmax4002_enable_streams s) = 0"
proof -
  let ?s1 = "snd (pm_runtime_get_sync s)"
  let ?s2 = "?s1\<lparr>trace := trace ?s1 @ written mode_common_regs,
                 regmap := stored mode_common_regs (regmap ?s1)\<rparr>"
  let ?s3 = "snd (enable_streams_sequence 0 ?s2)"
  have f1: "\<forall>n. fault ?s1 n = 0" using assms by (simp add: get_sync_fields)
  have g: "pm_runtime_get_sync s = (fst (pm_runtime_get_sync s), ?s1)" by simp
  have w: "cci_multi_reg_write mode_common_regs None ?s1 = (0, None, ?s2)"
    using f1 by (intro multi_reg_write_succeeds) simp
  have q: "enable_streams_sequence 0 ?s2 = (fst (enable_streams_sequence 0 ?s2), ?s3)"
    by simp
  have "fault ?s3 = fault ?s2"
    using bus_only_fields [OF bus_only_sequence] by blast
  with f1 have f3: "\<forall>n. fault ?s3 n = 0" by simp
  have h: "v4l2_ctrl_handler_setup ?s3 = (0, snd (v4l2_ctrl_handler_setup ?s3))"
    using setup_loop_no_fault [OF f3]
    by (metis prod.collapse v4l2_ctrl_handler_setup_def)
  show ?thesis
    using enable_streams_stages [OF g get_sync_no_fault [OF assms] w q h] by simp
qed

text \<open>
  Whenever the function returns an error, the reference on the power has been given
  back and the flip controls are as they were.
\<close>

lemma enable_streams_error_releases:
  assumes "fst (gmax4002_enable_streams s) \<noteq> 0"
  shows "usage_count (snd (gmax4002_enable_streams s)) = usage_count s
         \<and> vflip (snd (gmax4002_enable_streams s)) = vflip s
         \<and> hflip (snd (gmax4002_enable_streams s)) = hflip s"
proof -
  let ?s1 = "snd (pm_runtime_get_sync s)"
  let ?w = "cci_multi_reg_write mode_common_regs None ?s1"
  let ?s2 = "snd (snd ?w)"
  let ?s3 = "snd (enable_streams_sequence (fst ?w) ?s2)"
  let ?h = "v4l2_ctrl_handler_setup ?s3"
  let ?s4 = "snd ?h"
  have b2: "bus_only ?s1 ?s2" by (rule bus_only_multi_reg_write [OF bus_only_refl])
  have b3: "bus_only ?s2 ?s3" by (rule bus_only_sequence)
  have b4: "bus_only ?s3 ?s4" by (rule bus_only_handler_setup)
  note k1 = get_sync_fields [of s]
  note k2 = bus_only_fields [OF b2]
  note k3 = bus_only_fields [OF b3]
  note k4 = bus_only_fields [OF b4]
  show ?thesis
  proof (cases "fst (pm_runtime_get_sync s) < 0")
    case True
    then show ?thesis
      using k1 by (simp add: gmax4002_enable_streams_def case_prod_beta
          pm_runtime_put_noidle_def)
  next
    case False
    note nf = this
    show ?thesis
    proof (cases "fst ?w \<noteq> 0")
      case True
      then show ?thesis
        using nf k1 k2 by (simp add: gmax4002_enable_streams_def case_prod_beta
            pm_runtime_put_autosuspend_def)
    next
      case False
      note w0 = this
      show ?thesis
      proof (cases "fst ?h \<noteq> 0")
        case True
        then show ?thesis
          using nf w0 k1 k2 k3 k4
          by (simp add: gmax4002_enable_streams_def case_prod_beta
              pm_runtime_put_autosuspend_def)
      next
        case False
        then have "fst (gmax4002_enable_streams s) = 0"
          using nf w0 by (simp add: gmax4002_enable_streams_def case_prod_beta Let_def)
        with assms show ?thesis by simp
      qed
    qed
  qed
qed

text \<open>
  Claim C4. A successful enable leaves both flip controls locked, and then setting
  either of them is refused with the locked error and changes nothing, the trace
  included; disable unlocks both. On a powered session whose flip control is not locked,
  setting it appends exactly one write, to the register of that flip, to the trace.
\<close>

theorem flip_locked_while_streaming:
  "(fst (gmax4002_enable_streams s) = 0 \<longrightarrow>
      grabbed (vflip (snd (gmax4002_enable_streams s)))
      \<and> grabbed (hflip (snd (gmax4002_enable_streams s)))
      \<and> set_control V4L2_CID_VFLIP v (snd (gmax4002_enable_streams s))
          = (- EBUSY, snd (gmax4002_enable_streams s))
      \<and> set_control V4L2_CID_HFLIP v (snd (gmax4002_enable_streams s))
          = (- EBUSY, snd (gmax4002_enable_streams s)))
   \<and> \<not> grabbed (vflip (snd (gmax4002_disable_streams r s)))
   \<and> \<not> grabbed (hflip (snd (gmax4002_disable_streams r s)))
   \<and> (rpm_active s \<and> \<not> grabbed (vflip s) \<longrightarrow>
        trace (snd (set_control V4L2_CID_VFLIP v s))
          = trace s @ [RegWrite 0x2E05 (ucast (word_of_int v :: 64 word)) (hw_ret s)])
   \<and> (rpm_active s \<and> \<not> grabbed (hflip s) \<longrightarrow>
        trace (snd (set_control V4L2_CID_HFLIP v s))
          = trace s @ [RegWrite 0x3002 (ucast (word_of_int v :: 64 word)) (hw_ret s)])"
proof -
  have locked: "grabbed (vflip (snd (gmax4002_enable_streams s)))
                \<and> grabbed (hflip (snd (gmax4002_enable_streams s)))"
    if "fst (gmax4002_enable_streams s) = 0"
    using that
    by (simp add: gmax4002_enable_streams_def case_prod_beta Let_def v4l2_ctrl_grab_def
        split: if_splits)
  have unlocked: "\<not> grabbed (vflip (snd (gmax4002_disable_streams r s)))
                  \<and> \<not> grabbed (hflip (snd (gmax4002_disable_streams r s)))"
    by (simp add: gmax4002_disable_streams_def Let_def v4l2_ctrl_grab_def
        pm_runtime_put_autosuspend_def)
  have one_v: "trace (snd (set_control V4L2_CID_VFLIP v s))
                 = trace s @ [RegWrite 0x2E05 (ucast (word_of_int v :: 64 word)) (hw_ret s)]"
    if "rpm_active s" "\<not> grabbed (vflip s)"
    using that
    by (simp add: set_control_def set_ctrl_defs ctrl_consts cci_write_None hw_ret_def)
  have one_h: "trace (snd (set_control V4L2_CID_HFLIP v s))
                 = trace s @ [RegWrite 0x3002 (ucast (word_of_int v :: 64 word)) (hw_ret s)]"
    if "rpm_active s" "\<not> grabbed (hflip s)"
    using that
    by (simp add: set_control_def set_ctrl_defs ctrl_consts cci_write_None hw_ret_def)
  show ?thesis
    using locked unlocked one_v one_h
    by (simp add: set_control_def ctrl_consts)
qed

theorem flip_locked_while_streaming_witness:
  "fst (gmax4002_enable_streams (attached no_fault True)) = 0
   \<and> set_control V4L2_CID_VFLIP 1 (snd (gmax4002_enable_streams (attached no_fault True)))
       = (- 16, snd (gmax4002_enable_streams (attached no_fault True)))
   \<and> set_control V4L2_CID_HFLIP 1 (snd (gmax4002_enable_streams (attached no_fault True)))
       = (- 16, snd (gmax4002_enable_streams (attached no_fault True)))
   \<and> rpm_active (attached no_fault True)
   \<and> \<not> grabbed (vflip (attached no_fault True))
   \<and> \<not> grabbed (hflip (attached no_fault True))
   \<and> trace (snd (set_control V4L2_CID_VFLIP 1 (attached no_fault True)))
       = [RegWrite 0x2E05 1 0]
   \<and> trace (snd (set_control V4L2_CID_HFLIP 1 (attached no_fault True)))
       = [RegWrite 0x3002 1 0]"
proof -
  let ?s = "attached no_fault True"
  have nf: "\<forall>n. fault ?s n = 0" by (simp add: attached_defs no_fault_def)
  have ok: "fst (gmax4002_enable_streams ?s) = 0" by (rule enable_streams_no_fault [OF nf])
  have st: "rpm_active ?s \<and> \<not> grabbed (vflip ?s) \<and> \<not> grabbed (hflip ?s)
            \<and> trace ?s = [] \<and> hw_ret ?s = 0"
    by (simp add: attached_defs no_fault_def hw_ret_def)
  show ?thesis
    using flip_locked_while_streaming [of ?s 1 0] ok st
    by (simp add: EBUSY_def)
qed

text \<open>
  Claim C2. An error of the bus after the table has been written is collected in the
  local result, which the setup pass of the controls then overwrites. On a powered
  session where the only fault is the read of register 0x2E00 for the clock-stable bit
  (the bus operation at position 471 of the trace), every later step of the sequence is
  skipped, and yet the function returns success, keeps its reference on the power and
  locks the flips.
\<close>

theorem enable_streams_lost_error:
  "fst (gmax4002_enable_streams (attached (fault_at 471 5) True)) = 0
   \<and> usage_count (attached (fault_at 471 5) True) = 0
   \<and> usage_count (snd (gmax4002_enable_streams (attached (fault_at 471 5) True))) = 1
   \<and> grabbed (vflip (snd (gmax4002_enable_streams (attached (fault_at 471 5) True))))
   \<and> take 470 (trace (snd (gmax4002_enable_streams (attached (fault_at 471 5) True))))
       = written mode_common_regs
   \<and> drop 470 (trace (snd (gmax4002_enable_streams (attached (fault_at 471 5) True))))
       = [Usleep 10000 12000, RegRead 0x2E00 (- 5), Usleep 100000 101000,
          RegWrite 0x2EC9 0xE8 0, RegWrite 0x2EC9 0 0, RegWrite 0x2E05 0 0,
          RegWrite 0x3002 0 0, Usleep 25000 26000]"
proof -
  let ?s0 = "attached (fault_at 471 5) True"
  let ?s1 = "?s0\<lparr>usage_count := usage_count ?s0 + 1\<rparr>"
  let ?s2 = "?s1\<lparr>trace := trace ?s1 @ written mode_common_regs,
                 regmap := stored mode_common_regs (regmap ?s1)\<rparr>"
  let ?s3 = "?s2\<lparr>trace := trace ?s2 @
               [Usleep 10000 12000, RegRead 0x2E00 (- 5), Usleep 100000 101000]\<rparr>"
  let ?s4 = "?s3\<lparr>trace := trace ?s3 @
               [RegWrite 0x2EC9 0xE8 0, RegWrite 0x2EC9 0 0, RegWrite 0x2E05 0 0,
                RegWrite 0x3002 0 0],
               regmap := (regmap ?s3)(0x2EC9 := 0, 0x2E05 := 0, 0x3002 := 0)\<rparr>"
  have a: "rpm_active ?s0" by (simp add: attached_defs)
  have w: "cci_multi_reg_write mode_common_regs None ?s1 = (0, None, ?s2)"
    by (rule multi_reg_write_succeeds)
       (simp add: length_mode_common_regs attached_defs fault_at_def)
  have q: "enable_streams_sequence 0 ?s2 = (Some (- 5), ?s3)"
    by (simp add: attached_defs enable_streams_sequence_def bus_defs
        length_mode_common_regs fault_at_def)
  have h: "v4l2_ctrl_handler_setup ?s3 = (0, ?s4)"
    by (simp add: attached_defs set_ctrl_defs cci_write_None hw_ret_def
        length_mode_common_regs fault_at_def)
  have one: "(0::int) \<le> 1" by simp
  show ?thesis
    using enable_streams_stages [OF get_sync_powered [OF a] one w q h]
    by (simp add: attached_defs length_mode_common_regs)
qed

end
